theory Spec2Isabelle
  imports Main
begin

section \<open>Python values, dictionaries and exceptions\<close>

text \<open>
  The values that travel through the logging pipeline. A float that the code rounds to two
  decimals is kept exactly, as its number of hundredths. \<open>PList\<close> is a list or a tuple,
  \<open>PDict\<close> a dictionary with string keys. \<open>PDatetime\<close> carries the \<open>isoformat()\<close> of the
  datetime; \<open>PObj\<close> is any other object (a set, bytes, an instance of a user class), kept by
  its \<open>repr\<close>. \<open>json.dumps\<close> without a \<open>default\<close> hook accepts neither of the last two,
  at any depth.
\<close>

datatype pyval =
    PNone
  | PBool bool
  | PInt int
  | PStr string
  | PFloat2 int
  | PList "pyval list"
  | PDict "(string \<times> pyval) list"
  | PDatetime string
  | PObj string

text \<open>
  A Python \<open>dict\<close> with string keys: an association list in insertion order. Assigning to
  a key that exists replaces its value in place, assigning to a new key appends, as in Python.
\<close>

type_synonym pydict = "(string \<times> pyval) list"

fun dict_set :: "string \<Rightarrow> pyval \<Rightarrow> pydict \<Rightarrow> pydict" where
  "dict_set k v [] = [(k, v)]"
| "dict_set k v ((k', v') # d) = (if k' = k then (k, v) # d else (k', v') # dict_set k v d)"

definition dict_lookup :: "pydict \<Rightarrow> string \<Rightarrow> pyval option" where
  "dict_lookup d k = map_of d k"

definition dict_get :: "pydict \<Rightarrow> string \<Rightarrow> pyval \<Rightarrow> pyval" where
  "dict_get d k dflt = (case dict_lookup d k of Some v \<Rightarrow> v | None \<Rightarrow> dflt)"

definition dict_has :: "pydict \<Rightarrow> string \<Rightarrow> bool" where
  "dict_has d k = (dict_lookup d k \<noteq> None)"

text \<open>
  A raised exception: its class name and its \<open>str()\<close>. \<open>except Exception\<close> catches the
  first kind only; \<open>KeyboardInterrupt\<close> and \<open>SystemExit\<close> are of the second kind.
\<close>

datatype error =
    Exception string string
  | NonException string string

fun str_of_error :: "error \<Rightarrow> string" where
  "str_of_error (Exception cls m) = m"
| "str_of_error (NonException cls m) = m"

text \<open>The UTF-8 bytes of the signs that open the messages of the source.\<close>

definition warning_sign :: string where
  "warning_sign = [CHR 0xE2, CHR 0x9A, CHR 0xA0, CHR 0xEF, CHR 0xB8, CHR 0x8F]"

definition cross_mark :: string where
  "cross_mark = [CHR 0xE2, CHR 0x9D, CHR 0x8C]"

definition info_sign :: string where
  "info_sign = [CHR 0xE2, CHR 0x84, CHR 0xB9, CHR 0xEF, CHR 0xB8, CHR 0x8F]"

definition UNKNOWN :: pyval where
  "UNKNOWN = PStr ''UNKNOWN''"

section \<open>Configuration (config/config.py)\<close>

datatype level = DEBUG | INFO | WARNING | ERROR | CRITICAL

fun levelno_of :: "level \<Rightarrow> int" where
  "levelno_of DEBUG = 10"
| "levelno_of INFO = 20"
| "levelno_of WARNING = 30"
| "levelno_of ERROR = 40"
| "levelno_of CRITICAL = 50"

fun levelname_of :: "level \<Rightarrow> string" where
  "levelname_of DEBUG = ''DEBUG''"
| "levelname_of INFO = ''INFO''"
| "levelname_of WARNING = ''WARNING''"
| "levelname_of ERROR = ''ERROR''"
| "levelname_of CRITICAL = ''CRITICAL''"

text \<open>
  \<open>LoggingConfig\<close>: the three thresholds are validated against the five level names, so they
  are levels here.
\<close>

record LoggingConfig =
  log_level :: level
  file_log_level :: level
  console_log_level :: level
  log_file_path :: string
  error_log_file_path :: string
  log_queue_size :: nat
  max_log_file_size :: nat
  max_backup_files :: nat
  enable_memory_logging :: bool
  enable_execution_time_logging :: bool
  enable_request_metadata :: bool
  enable_stack_trace_logging :: bool

section \<open>The memory probe (utils/logging\_helpers.py)\<close>

text \<open>
  \<open>psutil.Process()\<close> and \<open>memory_info()\<close> either give the resident set size in bytes or
  raise one of the three exceptions psutil documents for them.
\<close>

datatype psutil_error = NoSuchProcess | AccessDenied | ZombieProcess

text \<open>
  \<open>round(rss / (1024 * 1024), 2)\<close>: the division by a power of two is exact in binary
  floating point, and \<open>round\<close> with digits rounds the exact value to the nearest hundredth,
  a tie to the even one. The result is the number of hundredths.
\<close>

definition round_half_even :: "nat \<Rightarrow> nat \<Rightarrow> int" where
  "round_half_even p q =
     (let d = p div q; r = p mod q in
      if 2 * r < q then int d
      else if q < 2 * r then int d + 1
      else if even d then int d else int d + 1)"

definition get_memory_usage :: "psutil_error + nat \<Rightarrow> pyval" where
  "get_memory_usage probe =
     (case probe of
        Inr rss \<Rightarrow> PFloat2 (round_half_even (100 * rss) (1024 * 1024))
      | Inl NoSuchProcess \<Rightarrow> PStr ''UNKNOWN''
      | Inl AccessDenied \<Rightarrow> PStr ''UNKNOWN''
      | Inl ZombieProcess \<Rightarrow> PStr ''UNKNOWN'')"

section \<open>Log records\<close>

text \<open>
  The exception triple of a record: the class name, \<open>str\<close> of the value, and the frames of
  the traceback when the third component is a real \<open>TracebackType\<close> (\<open>None\<close> when it is
  anything else, as in \<open>(type(e), e, None)\<close>).
\<close>

record exc_triple =
  exc_type :: string
  exc_value :: string
  exc_traceback :: "string list option"

text \<open>
  A \<open>logging.LogRecord\<close>: the attributes its constructor sets, and the attributes a caller
  attached through \<open>extra=\<close>. \<open>msg\<close> is the message as the caller wrote it and \<open>args\<close> its
  arguments, a tuple (\<open>PList\<close>) or a mapping (\<open>PDict\<close>); \<open>created\<close> is the whole seconds and
  \<open>msecs\<close> the whole milliseconds.
\<close>

record log_record =
  name :: string
  msg :: string
  args :: pyval
  level :: level
  pathname :: string
  filename :: string
  module :: string
  exc_info :: "exc_triple option"
  lineno :: int
  funcName :: string
  created :: int
  msecs :: nat
  relativeCreated :: int
  thread :: int
  threadName :: string
  processName :: string
  process :: int
  extras :: pydict

definition levelname :: "log_record \<Rightarrow> string" where
  "levelname r = levelname_of (level r)"

definition levelno :: "log_record \<Rightarrow> int" where
  "levelno r = levelno_of (level r)"

definition standard_attributes :: "log_record \<Rightarrow> pydict" where
  "standard_attributes r =
     [(''name'', PStr (name r)),
      (''msg'', PStr (msg r)),
      (''args'', args r),
      (''levelname'', PStr (levelname r)),
      (''levelno'', PInt (levelno r)),
      (''pathname'', PStr (pathname r)),
      (''filename'', PStr (filename r)),
      (''module'', PStr (module r)),
      (''exc_info'', (case exc_info r of None \<Rightarrow> PNone | Some ei \<Rightarrow> PObj ''(type, value, traceback)'')),
      (''exc_text'', PNone),
      (''stack_info'', PNone),
      (''lineno'', PInt (lineno r)),
      (''funcName'', PStr (funcName r)),
      (''created'', PInt (created r)),
      (''msecs'', PInt (int (msecs r))),
      (''relativeCreated'', PInt (relativeCreated r)),
      (''thread'', PInt (thread r)),
      (''threadName'', PStr (threadName r)),
      (''processName'', PStr (processName r)),
      (''process'', PInt (process r))]"

definition standard_names :: "string list" where
  "standard_names =
     [''name'', ''msg'', ''args'', ''levelname'', ''levelno'', ''pathname'', ''filename'',
      ''module'', ''exc_info'', ''exc_text'', ''stack_info'', ''lineno'', ''funcName'',
      ''created'', ''msecs'', ''relativeCreated'', ''thread'', ''threadName'',
      ''processName'', ''process'']"

text \<open>
  \<open>record.__dict__\<close>: \<open>Logger.makeRecord\<close> stores each extra attribute after the standard
  ones and refuses one that would overwrite a standard attribute, so such an entry has no
  effect here.
\<close>

fun add_extras :: "pydict \<Rightarrow> pydict \<Rightarrow> pydict" where
  "add_extras [] d = d"
| "add_extras ((k, v) # es) d =
     add_extras es (if k \<in> set standard_names then d else dict_set k v d)"

definition record_dict :: "log_record \<Rightarrow> pydict" where
  "record_dict r = add_extras (extras r) (standard_attributes r)"

definition hasattr :: "log_record \<Rightarrow> string \<Rightarrow> bool" where
  "hasattr r a = dict_has (record_dict r) a"

definition getattr :: "log_record \<Rightarrow> string \<Rightarrow> pyval \<Rightarrow> pyval" where
  "getattr r a dflt = dict_get (record_dict r) a dflt"

section \<open>The formatter (utils/custom\_json\_formatter.py)\<close>

text \<open>
  What the formatter reads from outside the record: the host name, the \<open>ENVIRONMENT\<close>
  variable, the clock behind \<open>datetime.now\<close> (as the \<open>isoformat()\<close> of its value),
  \<open>time.strftime("%Y-%m-%dT%H:%M:%S", time.gmtime(t))\<close> as a function of \<open>t\<close>, the
  outcome of each call of the memory probe, numbered from 0 within one formatting, and
  Python's operator \<open>%\<close> on a string and its arguments, which returns the formatted string or
  raises (\<open>TypeError\<close> when the arguments do not fit the format).
\<close>

record env =
  hostname :: string
  environment_var :: "string option"
  utcnow :: string
  strftime_gmtime :: "int \<Rightarrow> string"
  memory_probe :: "nat \<Rightarrow> psutil_error + nat"
  percent_format :: "string \<Rightarrow> pyval \<Rightarrow> error + string"

text \<open>The truth value of a value, as \<open>if value:\<close> takes it.\<close>

fun truthy :: "pyval \<Rightarrow> bool" where
  "truthy PNone = False"
| "truthy (PBool b) = b"
| "truthy (PInt i) = (i \<noteq> 0)"
| "truthy (PStr s) = (s \<noteq> [])"
| "truthy (PFloat2 h) = (h \<noteq> 0)"
| "truthy (PList vs) = (vs \<noteq> [])"
| "truthy (PDict kvs) = (kvs \<noteq> [])"
| "truthy (PDatetime stamp) = True"
| "truthy (PObj repr) = True"

text \<open>
  \<open>LogRecord.getMessage\<close>, which line 37 calls: the message merged with its arguments, when
  there are any. It raises what the operator \<open>%\<close> raises.
\<close>

definition getMessage :: "env \<Rightarrow> log_record \<Rightarrow> error + string" where
  "getMessage e r = (if truthy (args r) then percent_format e (msg r) (args r) else Inr (msg r))"

definition getenv_environment :: "env \<Rightarrow> string" where
  "getenv_environment e = (case environment_var e of Some v \<Rightarrow> v | None \<Rightarrow> ''development'')"

text \<open>Decimal digits, and \<open>f"{n:03d}"\<close>.\<close>

fun show_nat :: "nat \<Rightarrow> string" where
  "show_nat n =
     (if n < 10 then [char_of (48 + n)]
      else show_nat (n div 10) @ [char_of (48 + n mod 10)])"

definition format_03d :: "nat \<Rightarrow> string" where
  "format_03d n = replicate (3 - length (show_nat n)) CHR ''0'' @ show_nat n"

definition timestamp_of :: "env \<Rightarrow> log_record \<Rightarrow> string" where
  "timestamp_of e r = strftime_gmtime e (created r) @ ''.'' @ format_03d (msecs r) @ ''Z''"

text \<open>
  \<open>traceback.format_exception\<close> joined: with the three components it renders the frames, if
  any, and the final line. With only the type and the value, which is how line 146 calls it,
  Python 3.10 and later raises \<open>ValueError\<close> (earlier versions raise \<open>TypeError\<close> for the
  missing argument).
\<close>

definition format_exception :: "exc_triple \<Rightarrow> string" where
  "format_exception ei =
     (case exc_traceback ei of
        Some frames \<Rightarrow> ''Traceback (most recent call last):'' @ [CHR 0x0A] @ concat frames
      | None \<Rightarrow> [])
     @ exc_type ei @ '': '' @ exc_value ei @ [CHR 0x0A]"

definition format_exception_without_tb :: "string \<Rightarrow> string \<Rightarrow> error + string" where
  "format_exception_without_tb ty v =
     Inl (Exception ''ValueError'' ''Both or neither of value and tb must be given'')"

text \<open>\<open>logging.Formatter.formatException\<close>: the same rendering without its final newline.\<close>

definition formatException :: "exc_triple \<Rightarrow> string" where
  "formatException ei = butlast (format_exception ei)"

text \<open>
  The \<open>extra\<close> argument of \<open>json_record\<close>: a dictionary, or any other value.
\<close>

datatype extra_arg = Dict pydict | NotADict pyval

fun isinstance_dict :: "extra_arg \<Rightarrow> bool" where
  "isinstance_dict (Dict d) = True"
| "isinstance_dict (NotADict v) = False"

text \<open>
  \<open>json_log_formatter.JSONFormatter.json_record\<close>, the method of the base class that line 93
  calls. It writes into the dictionary it is given and returns that same dictionary; on a
  value that is not a dictionary the item assignment raises.
\<close>

definition super_json_record_body :: "env \<Rightarrow> string \<Rightarrow> pydict \<Rightarrow> log_record \<Rightarrow> pydict" where
  "super_json_record_body e message d r =
     (let d1 = dict_set ''message'' (PStr message) d;
          d2 = (if \<not> dict_has d1 ''time'' then dict_set ''time'' (PDatetime (utcnow e)) d1 else d1);
          d3 = (case exc_info r of
                  Some ei \<Rightarrow> dict_set ''exc_info'' (PStr (formatException ei)) d2
                | None \<Rightarrow> d2)
      in d3)"

definition super_json_record :: "env \<Rightarrow> string \<Rightarrow> extra_arg \<Rightarrow> log_record \<Rightarrow> error + pydict" where
  "super_json_record e message extra r =
     (case extra of
        NotADict v \<Rightarrow> Inl (Exception ''TypeError'' ''object does not support item assignment'')
      | Dict d \<Rightarrow> Inr (super_json_record_body e message d r))"

text \<open>
  \<open>getattr(extra, name, default)\<close> on a dictionary: the keys of a dictionary are not
  attributes of it; its attributes are its methods.
\<close>

definition dict_attribute_names :: "string list" where
  "dict_attribute_names =
     [''clear'', ''copy'', ''fromkeys'', ''get'', ''items'', ''keys'', ''pop'', ''popitem'',
      ''setdefault'', ''update'', ''values'']"

definition getattr_of_dict :: "pydict \<Rightarrow> string \<Rightarrow> pyval \<Rightarrow> pyval" where
  "getattr_of_dict d a dflt =
     (if a \<in> set dict_attribute_names then PObj ''<built-in method>'' else dflt)"

subsection \<open>\<open>json_record\<close>, block by block\<close>

text \<open>
  After line 93 \<open>extra\<close> and \<open>record\<close> are one and the same dictionary, so every read of
  \<open>extra\<close> below reads the record as it stands at that moment.
\<close>

text \<open>Lines 95-104.\<close>

definition add_request_metadata :: "LoggingConfig \<Rightarrow> log_record \<Rightarrow> bool \<Rightarrow> pydict \<Rightarrow> pydict" where
  "add_request_metadata cfg r extra_is_dict d =
     (if enable_request_metadata cfg then
        (if extra_is_dict then
           (let d1 = dict_set ''request_id'' (getattr r ''request_id'' (dict_get d ''request_id'' UNKNOWN)) d;
                d2 = dict_set ''user_id'' (getattr r ''user_id'' (dict_get d1 ''user_id'' UNKNOWN)) d1;
                d3 = dict_set ''feed_type'' (getattr r ''feed_type'' (dict_get d2 ''feed_type'' UNKNOWN)) d2
            in d3)
         else
           (let d1 = dict_set ''request_id'' (getattr r ''request_id'' UNKNOWN) d;
                d2 = dict_set ''user_id'' (getattr r ''user_id'' UNKNOWN) d1;
                d3 = dict_set ''feed_type'' (getattr r ''feed_type'' UNKNOWN) d2
            in d3))
      else d)"

text \<open>Lines 106-108. A dictionary is truthy when it is not empty.\<close>

definition add_trace_fields :: "log_record \<Rightarrow> pydict \<Rightarrow> pydict" where
  "add_trace_fields r d =
     (let d1 = dict_set ''trace_id''
                 (getattr r ''trace_id'' (if d \<noteq> [] then getattr_of_dict d ''trace_id'' UNKNOWN else UNKNOWN)) d;
          d2 = dict_set ''span_id''
                 (getattr r ''span_id'' (if d1 \<noteq> [] then getattr_of_dict d1 ''span_id'' UNKNOWN else UNKNOWN)) d1
      in d2)"

text \<open>Lines 110-123.\<close>

definition add_debug_and_context :: "env \<Rightarrow> log_record \<Rightarrow> pydict \<Rightarrow> pydict" where
  "add_debug_and_context e r d =
     (let d1 = dict_set ''module'' (getattr r ''module'' UNKNOWN) d;
          d2 = dict_set ''function'' (getattr r ''funcName'' UNKNOWN) d1;
          d3 = dict_set ''line'' (getattr r ''lineno'' UNKNOWN) d2;
          d4 = dict_set ''process'' (getattr r ''process'' UNKNOWN) d3;
          d5 = dict_set ''thread'' (getattr r ''thread'' UNKNOWN) d4;
          d6 = dict_set ''hostname'' (PStr (hostname e)) d5;
          d7 = dict_set ''environment'' (PStr (getenv_environment e)) d6;
          d8 = dict_set ''timestamp'' (PStr (timestamp_of e r)) d7
      in d8)"

text \<open>Line 126.\<close>

definition convert_time :: "pydict \<Rightarrow> pydict" where
  "convert_time d =
     (case dict_lookup d ''time'' of
        Some (PDatetime stamp) \<Rightarrow> dict_set ''time'' (PStr stamp) d
      | Some v \<Rightarrow> dict_set ''time'' v d
      | None \<Rightarrow> dict_set ''time'' PNone d)"

text \<open>Lines 128-134. The probe is called for the first time of this formatting.\<close>

definition add_execution_time :: "LoggingConfig \<Rightarrow> log_record \<Rightarrow> pydict \<Rightarrow> pydict" where
  "add_execution_time cfg r d =
     (if enable_execution_time_logging cfg
      then dict_set ''execution_time_ms'' (getattr r ''execution_time_ms'' UNKNOWN) d
      else d)"

definition add_memory_usage :: "LoggingConfig \<Rightarrow> env \<Rightarrow> nat \<Rightarrow> pydict \<Rightarrow> pydict" where
  "add_memory_usage cfg e call d =
     (if enable_memory_logging cfg
      then dict_set ''memory_usage_mb'' (get_memory_usage (memory_probe e call)) d
      else d)"

text \<open>
  Lines 137-151: the body of the \<open>try\<close>, then the \<open>except\<close>. The one call of the body that
  raises is that of line 146, and what it raises is an \<open>Exception\<close>, which line 150 catches.
\<close>

definition no_exception_info :: string where
  "no_exception_info = warning_sign @ '' Exception occurred, but no exception info was available.''"

definition stack_trace_try :: "log_record \<Rightarrow> pydict \<Rightarrow> error + pydict" where
  "stack_trace_try r d =
     (if levelname r \<in> set [''ERROR'', ''CRITICAL''] \<and> exc_info r \<noteq> None then
        (case exc_info r of
           None \<Rightarrow> Inr d
         | Some ei \<Rightarrow>
             (case exc_traceback ei of
                Some frames \<Rightarrow> Inr (dict_set ''stack_trace'' (PStr (format_exception ei)) d)
              | None \<Rightarrow>
                  (case format_exception_without_tb (exc_type ei) (exc_value ei) of
                     Inl err \<Rightarrow> Inl err
                   | Inr s \<Rightarrow> Inr (dict_set ''stack_trace'' (PStr s) d))))
      else if levelname r \<in> set [''ERROR'', ''CRITICAL''] \<and> exc_info r = None then
        Inr (dict_set ''stack_trace'' (PStr no_exception_info) d)
      else Inr d)"

definition add_stack_trace :: "log_record \<Rightarrow> pydict \<Rightarrow> pydict" where
  "add_stack_trace r d =
     (case stack_trace_try r d of
        Inr d' \<Rightarrow> d'
      | Inl err \<Rightarrow>
          dict_set ''stack_trace''
            (PStr (warning_sign @ '' Error retrieving stack trace: '' @ str_of_error err)) d)"

text \<open>Lines 95-152, the blocks in their order, on the dictionary that line 93 returned.\<close>

definition json_record_blocks :: "LoggingConfig \<Rightarrow> env \<Rightarrow> log_record \<Rightarrow> bool \<Rightarrow> pydict \<Rightarrow> pydict" where
  "json_record_blocks cfg e r extra_is_dict d =
     add_stack_trace r
       (add_memory_usage cfg e 0
         (add_execution_time cfg r
           (convert_time
             (add_debug_and_context e r
               (add_trace_fields r
                 (add_request_metadata cfg r extra_is_dict d))))))"

definition json_record :: "LoggingConfig \<Rightarrow> env \<Rightarrow> log_record \<Rightarrow> string \<Rightarrow> extra_arg \<Rightarrow> error + pydict" where
  "json_record cfg e r message extra0 =
     (let extra = (if \<not> isinstance_dict extra0 then Dict [] else extra0) in
      case super_json_record e message extra r of
        Inl err \<Rightarrow> Inl err
      | Inr d \<Rightarrow> Inr (json_record_blocks cfg e r (isinstance_dict extra) d))"

subsection \<open>\<open>_extract_extra_fields\<close> and \<open>format\<close>\<close>

definition excluded_keys :: "string list" where
  "excluded_keys =
     [''args'', ''msg'', ''exc_info'', ''exc_text'', ''created'', ''msecs'', ''relativeCreated'',
      ''stack_info'']"

fun extract_loop :: "pydict \<Rightarrow> pydict \<Rightarrow> pydict" where
  "extract_loop [] extra_fields = extra_fields"
| "extract_loop ((key, val) # items) extra_fields =
     extract_loop items
       (if key \<notin> set excluded_keys then dict_set key val extra_fields else extra_fields)"

definition extract_extra_fields :: "log_record \<Rightarrow> pydict" where
  "extract_extra_fields r = extract_loop (record_dict r) []"

text \<open>
  \<open>json.dumps\<close> without a \<open>default\<close> hook raises \<open>TypeError\<close> at a value it cannot
  serialise. The JSON text it returns otherwise is one object with the dictionary's items in
  their order; it is kept as that dictionary.
\<close>

fun json_serializable :: "pyval \<Rightarrow> bool" where
  "json_serializable (PDatetime stamp) = False"
| "json_serializable (PObj repr) = False"
| "json_serializable (PList vs) = list_all json_serializable vs"
| "json_serializable (PDict kvs) = list_all (\<lambda>kv. json_serializable (snd kv)) kvs"
| "json_serializable v = True"

definition all_serializable :: "pydict \<Rightarrow> bool" where
  "all_serializable d = list_all (\<lambda>kv. json_serializable (snd kv)) d"

definition json_dumps :: "pydict \<Rightarrow> error + pydict" where
  "json_dumps d =
     (if all_serializable d then Inr d
      else Inl (Exception ''TypeError'' ''Object is not JSON serializable''))"

text \<open>Lines 42-62 of \<open>format\<close>.\<close>

definition add_format_fields :: "env \<Rightarrow> log_record \<Rightarrow> pydict \<Rightarrow> pydict" where
  "add_format_fields e r d =
     (let d1 = dict_set ''levelname'' (PStr (levelname r)) d;
          d2 = dict_set ''timestamp'' (PStr (timestamp_of e r)) d1;
          d3 = (case dict_lookup d2 ''time'' of
                  Some (PDatetime stamp) \<Rightarrow> dict_set ''time'' (PStr stamp) d2
                | _ \<Rightarrow> d2);
          d4 = dict_set ''module'' (PStr (module r)) d3;
          d5 = dict_set ''function'' (PStr (funcName r)) d4;
          d6 = dict_set ''line'' (PInt (lineno r)) d5;
          d7 = dict_set ''process'' (PInt (process r)) d6;
          d8 = dict_set ''thread'' (PInt (thread r)) d7;
          d9 = dict_set ''hostname'' (PStr (hostname e)) d8;
          d10 = dict_set ''environment'' (PStr (getenv_environment e)) d9
      in d10)"

text \<open>Lines 72-74: a triple is truthy, \<open>None\<close> is not.\<close>

definition add_exc_info_trace :: "log_record \<Rightarrow> pydict \<Rightarrow> pydict" where
  "add_exc_info_trace r d =
     (case exc_info r of
        Some ei \<Rightarrow> dict_set ''stack_trace'' (PStr (format_exception ei)) d
      | None \<Rightarrow> d)"

text \<open>
  \<open>format\<close>: lines 37-40, then lines 42-74 on the record that \<open>json_record\<close> returned, then
  line 76. The formatter object itself is an argument: \<open>configure_logging\<close> sets an
  attribute \<open>include_stack_trace\<close> on it.
\<close>

record formatter =
  include_stack_trace :: bool

definition format_blocks :: "LoggingConfig \<Rightarrow> env \<Rightarrow> log_record \<Rightarrow> pydict \<Rightarrow> pydict" where
  "format_blocks cfg e r structured_record =
     add_exc_info_trace r
       (add_memory_usage cfg e 1
         (add_execution_time cfg r
           (add_format_fields e r structured_record)))"

definition format :: "formatter \<Rightarrow> LoggingConfig \<Rightarrow> env \<Rightarrow> log_record \<Rightarrow> error + pydict" where
  "format self cfg e r =
     (case getMessage e r of
        Inl err \<Rightarrow> Inl err
      | Inr message \<Rightarrow>
          (let extra = extract_extra_fields r in
           case json_record cfg e r message (Dict extra) of
             Inl err \<Rightarrow> Inl err
           | Inr structured_record \<Rightarrow> json_dumps (format_blocks cfg e r structured_record)))"

text \<open>What a call of \<open>json_record\<close> or \<open>format\<close> gave: whether it returned, and a field of
  the record it returned.\<close>

definition returned :: "error + pydict \<Rightarrow> bool" where
  "returned res = (case res of Inr d \<Rightarrow> True | Inl err \<Rightarrow> False)"

definition field :: "error + pydict \<Rightarrow> string \<Rightarrow> pyval option" where
  "field res k = (case res of Inr d \<Rightarrow> dict_lookup d k | Inl err \<Rightarrow> None)"

text \<open>
  Between line 93 and line 126 the record may hold one value that \<open>json.dumps\<close> refuses:
  the datetime under \<open>time\<close>.
\<close>

fun is_datetime :: "pyval \<Rightarrow> bool" where
  "is_datetime (PDatetime stamp) = True"
| "is_datetime v = False"

definition serializable_but_time :: "pydict \<Rightarrow> bool" where
  "serializable_but_time d =
     (distinct (map fst d) \<and>
      list_all (\<lambda>kv. json_serializable (snd kv) \<or> (fst kv = ''time'' \<and> is_datetime (snd kv))) d)"

text \<open>Whether the message of a record formats with its arguments, and the message then.\<close>

definition message_formats :: "env \<Rightarrow> log_record \<Rightarrow> bool" where
  "message_formats e r = (case getMessage e r of Inr m \<Rightarrow> True | Inl err \<Rightarrow> False)"

definition message_of :: "env \<Rightarrow> log_record \<Rightarrow> string" where
  "message_of e r = (case getMessage e r of Inr m \<Rightarrow> m | Inl err \<Rightarrow> [])"

definition dict_of_extra :: "extra_arg \<Rightarrow> pydict" where
  "dict_of_extra x = (case x of Dict d \<Rightarrow> d | NotADict v \<Rightarrow> [])"

section \<open>The dispatch worker (utils/logging\_config.py, \<open>SafeQueueListener\<close>)\<close>

text \<open>
  The two sinks of the listener (line 91) are a \<open>RotatingFileHandler\<close> and a \<open>StreamHandler\<close>
  of the standard library. A sink has its name, its class, its threshold, and the outcome of
  its write of a given record: formatting, rollover, \<open>stream.write\<close> and \<open>flush\<close> either all
  succeed or one of them raises.
\<close>

datatype handler_class = StreamHandlerClass | RotatingFileHandlerClass

record handler =
  handler_name :: string
  handler_class :: handler_class
  handler_level :: int
  write_raises :: "log_record \<Rightarrow> error option"

text \<open>
  What the error paths read from the process: the module switch \<open>logging.raiseExceptions\<close>
  (\<open>True\<close> unless the application sets it otherwise) and the two standard streams, each of
  which is usable, absent (\<open>None\<close>), or fails every write with a given exception (a closed
  stream with \<open>ValueError\<close>, a broken pipe with \<open>BrokenPipeError\<close>).
\<close>

datatype stream_state = Usable | Missing | Failing error

record channels =
  raiseExceptions :: bool
  sys_stderr :: stream_state
  sys_stdout :: stream_state

text \<open>
  The state of a dispatch: which sink has received which record, in order; the reports written
  to standard error, one entry for each report headed \<open>--- Logging error ---\<close>, with the
  exception whose traceback it shows and the record whose message and arguments it shows; and
  the lines printed to standard output.
\<close>

record dispatch_state =
  delivered :: "(string \<times> log_record) list"
  stderr_reports :: "(error \<times> log_record) list"
  printed :: "string list"

text \<open>\<open>except OSError\<close> catches \<open>OSError\<close> and its subclasses, here the built-in ones.\<close>

definition OSError_classes :: "string list" where
  "OSError_classes =
     [''OSError'', ''BlockingIOError'', ''BrokenPipeError'', ''ChildProcessError'',
      ''ConnectionAbortedError'', ''ConnectionError'', ''ConnectionRefusedError'',
      ''ConnectionResetError'', ''FileExistsError'', ''FileNotFoundError'', ''InterruptedError'',
      ''IsADirectoryError'', ''NotADirectoryError'', ''PermissionError'', ''ProcessLookupError'',
      ''TimeoutError'']"

fun isinstance_OSError :: "error \<Rightarrow> bool" where
  "isinstance_OSError (Exception cls m) = (cls \<in> set OSError_classes)"
| "isinstance_OSError (NonException cls m) = False"

text \<open>
  \<open>Handler.handleError\<close>: when \<open>raiseExceptions\<close> is on and \<open>sys.stderr\<close> is there, it writes
  the report to standard error inside a \<open>try\<close> whose only handler passes over an \<open>OSError\<close>;
  any other exception of that write leaves \<open>handleError\<close>. Otherwise it does nothing.
\<close>

definition handleError ::
  "channels \<Rightarrow> error \<Rightarrow> log_record \<Rightarrow> dispatch_state \<Rightarrow> dispatch_state \<times> error option" where
  "handleError ch err r s =
     (if raiseExceptions ch \<and> sys_stderr ch \<noteq> Missing then
        (case sys_stderr ch of
           Usable \<Rightarrow> (s\<lparr>stderr_reports := stderr_reports s @ [(err, r)]\<rparr>, None)
         | Missing \<Rightarrow> (s, None)
         | Failing e \<Rightarrow> (if isinstance_OSError e then (s, None) else (s, Some e)))
      else (s, None))"

text \<open>
  \<open>StreamHandler.emit\<close>: the write stands in a \<open>try\<close> whose handlers re-raise a
  \<open>RecursionError\<close> and give any other \<open>Exception\<close> to \<open>handleError\<close>; what is not an
  \<open>Exception\<close> passes through.
\<close>

definition StreamHandler_emit ::
  "channels \<Rightarrow> handler \<Rightarrow> log_record \<Rightarrow> dispatch_state \<Rightarrow> dispatch_state \<times> error option" where
  "StreamHandler_emit ch h r s =
     (case write_raises h r of
        None \<Rightarrow> (s\<lparr>delivered := delivered s @ [(handler_name h, r)]\<rparr>, None)
      | Some (NonException cls m) \<Rightarrow> (s, Some (NonException cls m))
      | Some (Exception cls m) \<Rightarrow>
          (if cls = ''RecursionError'' then (s, Some (Exception cls m))
           else handleError ch (Exception cls m) r s))"

text \<open>
  \<open>BaseRotatingHandler.emit\<close>: rollover and \<open>FileHandler.emit\<close>, which runs the emit above,
  stand in a \<open>try\<close> of their own that gives every \<open>Exception\<close> to \<open>handleError\<close>, so also the
  \<open>RecursionError\<close> that the inner one re-raised and whatever left the inner \<open>handleError\<close>.
\<close>

definition RotatingFileHandler_emit ::
  "channels \<Rightarrow> handler \<Rightarrow> log_record \<Rightarrow> dispatch_state \<Rightarrow> dispatch_state \<times> error option" where
  "RotatingFileHandler_emit ch h r s =
     (case StreamHandler_emit ch h r s of
        (s', Some (Exception cls m)) \<Rightarrow> handleError ch (Exception cls m) r s'
      | (s', Some (NonException cls m)) \<Rightarrow> (s', Some (NonException cls m))
      | (s', None) \<Rightarrow> (s', None))"

text \<open>
  \<open>Handler.handle\<close>: no filter is installed on these sinks, so it calls the \<open>emit\<close> of the
  sink's class.
\<close>

definition Handler_handle ::
  "channels \<Rightarrow> handler \<Rightarrow> log_record \<Rightarrow> dispatch_state \<Rightarrow> dispatch_state \<times> error option" where
  "Handler_handle ch h r s =
     (case handler_class h of
        StreamHandlerClass \<Rightarrow> StreamHandler_emit ch h r s
      | RotatingFileHandlerClass \<Rightarrow> RotatingFileHandler_emit ch h r s)"

text \<open>
  \<open>logging.handlers.QueueListener.handle\<close>, which \<open>super().handle(record)\<close> runs: one loop
  over the handlers, with nothing around the call of a handler.
\<close>

fun QueueListener_handle ::
  "channels \<Rightarrow> bool \<Rightarrow> handler list \<Rightarrow> log_record \<Rightarrow> dispatch_state
     \<Rightarrow> dispatch_state \<times> error option" where
  "QueueListener_handle ch respect_handler_level [] r s = (s, None)"
| "QueueListener_handle ch respect_handler_level (h # hs) r s =
     (if (if \<not> respect_handler_level then True else handler_level h \<le> levelno r) then
        (case Handler_handle ch h r s of
           (s', Some err) \<Rightarrow> (s', Some err)
         | (s', None) \<Rightarrow> QueueListener_handle ch respect_handler_level hs r s')
      else QueueListener_handle ch respect_handler_level hs r s)"

text \<open>
  \<open>SafeQueueListener.handle\<close>, lines 20-27. The \<open>print\<close> of line 27 writes to standard output,
  does nothing when there is none, and raises what the stream's write raises; that exception
  leaves \<open>handle\<close>, as does what is not an \<open>Exception\<close>.
\<close>

definition logging_error_line :: "string \<Rightarrow> string" where
  "logging_error_line m = cross_mark @ '' Logging error while processing queue record: '' @ m"

definition print_line :: "channels \<Rightarrow> string \<Rightarrow> dispatch_state \<Rightarrow> dispatch_state \<times> error option" where
  "print_line ch line s =
     (case sys_stdout ch of
        Usable \<Rightarrow> (s\<lparr>printed := printed s @ [line]\<rparr>, None)
      | Missing \<Rightarrow> (s, None)
      | Failing e \<Rightarrow> (s, Some e))"

definition SafeQueueListener_handle ::
  "channels \<Rightarrow> bool \<Rightarrow> handler list \<Rightarrow> log_record \<Rightarrow> dispatch_state
     \<Rightarrow> dispatch_state \<times> error option" where
  "SafeQueueListener_handle ch respect_handler_level hs r s =
     (case QueueListener_handle ch respect_handler_level hs r s of
        (s', None) \<Rightarrow> (s', None)
      | (s', Some (Exception cls m)) \<Rightarrow> print_line ch (logging_error_line m) s'
      | (s', Some (NonException cls m)) \<Rightarrow> (s', Some (NonException cls m)))"

text \<open>
  The worker thread, \<open>QueueListener._monitor\<close>: it takes the queued items in order and stops
  at the sentinel that \<open>stop()\<close> enqueues. An exception that leaves \<open>handle\<close> ends the thread.
\<close>

datatype queue_item = Record log_record | Sentinel

fun monitor ::
  "channels \<Rightarrow> bool \<Rightarrow> handler list \<Rightarrow> queue_item list \<Rightarrow> dispatch_state
     \<Rightarrow> dispatch_state \<times> error option" where
  "monitor ch respect_handler_level hs [] s = (s, None)"
| "monitor ch respect_handler_level hs (Sentinel # q) s = (s, None)"
| "monitor ch respect_handler_level hs (Record r # q) s =
     (case SafeQueueListener_handle ch respect_handler_level hs r s of
        (s', Some err) \<Rightarrow> (s', Some err)
      | (s', None) \<Rightarrow> monitor ch respect_handler_level hs q s')"

text \<open>
  What a sink has received; the deliveries that a list of working sinks makes of a record; the
  exception, if any, that leaves \<open>handleError\<close> and the one that leaves \<open>print\<close>; the report
  that \<open>handleError\<close> leaves on standard error and the line that \<open>print\<close> leaves on standard
  output.
\<close>

definition received :: "string \<Rightarrow> dispatch_state \<Rightarrow> log_record list" where
  "received sink s = map snd (filter (\<lambda>nr. fst nr = sink) (delivered s))"

definition deliveries :: "handler list \<Rightarrow> log_record \<Rightarrow> (string \<times> log_record) list" where
  "deliveries hs r = map (\<lambda>h. (handler_name h, r)) (filter (\<lambda>h. handler_level h \<le> levelno r) hs)"

definition handleError_raises :: "channels \<Rightarrow> error option" where
  "handleError_raises ch =
     (case sys_stderr ch of
        Failing e \<Rightarrow> (if raiseExceptions ch \<and> \<not> isinstance_OSError e then Some e else None)
      | Usable \<Rightarrow> None
      | Missing \<Rightarrow> None)"

definition print_raises :: "channels \<Rightarrow> error option" where
  "print_raises ch = (case sys_stdout ch of Failing e \<Rightarrow> Some e | Usable \<Rightarrow> None | Missing \<Rightarrow> None)"

definition error_report :: "channels \<Rightarrow> error \<Rightarrow> log_record \<Rightarrow> (error \<times> log_record) list" where
  "error_report ch err r =
     (if raiseExceptions ch \<and> sys_stderr ch = Usable then [(err, r)] else [])"

definition printed_report :: "channels \<Rightarrow> string \<Rightarrow> string list" where
  "printed_report ch m = (if sys_stdout ch = Usable then [logging_error_line m] else [])"

section \<open>The bootstrap (utils/logging\_config.py, \<open>configure_logging\<close>)\<close>

text \<open>
  What the bootstrap acts on: the directories and the files with their permission bits, the
  handlers of the root logger and of the logger \<open>logging_errors\<close>, the root logger's level
  and \<open>propagate\<close>, the worker threads started, the records logged by the bootstrap itself,
  and the attribute set on the formatter.
\<close>

datatype handler_ref =
    StreamHandler
  | RotatingFileHandler string
  | QueueHandler
  | Installed string

record world =
  dirs :: "string list"
  files :: "(string \<times> nat) list"
  root_handlers :: "handler_ref list"
  root_level :: "level option"
  root_propagate :: bool
  error_logger_handlers :: "handler_ref list"
  error_logger_level :: "level option"
  listeners_started :: nat
  logged :: "(string \<times> level \<times> string \<times> pydict) list"
  formatter_state :: formatter

text \<open>
  The calls the body of \<open>configure_logging\<close> makes, each of which returns or raises.
\<close>

datatype step =
    Makedirs string
  | EnsureFile string
  | Chmod string nat
  | NewFormatter
  | NewQueue nat
  | NewQueueHandler
  | NewRotatingFileHandler string nat nat level
  | NewStreamHandler level
  | NewListener
  | StartListener
  | ClearRootHandlers
  | AddHandler handler_ref
  | SetRootLevel level
  | SetPropagate bool
  | ErrorLoggerAddHandler handler_ref
  | ErrorLoggerSetLevel level
  | ErrorLoggerError string
  | LoggerInfo string pydict
  | SetIncludeStackTrace

text \<open>\<open>os.path.dirname\<close> for POSIX paths.\<close>

definition dirname :: "string \<Rightarrow> string" where
  "dirname p =
     (let head = rev (dropWhile (\<lambda>c. c \<noteq> CHR ''/'') (rev p)) in
      if head \<noteq> [] \<and> head \<noteq> replicate (length head) CHR ''/''
      then rev (dropWhile (\<lambda>c. c = CHR ''/'') (rev head))
      else head)"

text \<open>The permission bits \<open>0o600\<close>, and \<open>0o644\<close> for a file created under the usual umask.\<close>

definition mode_600 :: nat where
  "mode_600 = 6 * 64"

definition mode_644 :: nat where
  "mode_644 = 6 * 64 + 4 * 8 + 4"

definition set_mode :: "string \<Rightarrow> nat \<Rightarrow> (string \<times> nat) list \<Rightarrow> (string \<times> nat) list" where
  "set_mode p m fs = map (\<lambda>pm. if fst pm = p then (p, m) else pm) fs"

definition create_if_missing :: "string \<Rightarrow> (string \<times> nat) list \<Rightarrow> (string \<times> nat) list" where
  "create_if_missing p fs = (if p \<in> set (map fst fs) then fs else fs @ [(p, mode_644)])"

text \<open>
  The effect of a call that returns. \<open>Logger.addHandler\<close> appends a handler that is not
  yet in the list; lines 96-97 clear the root logger's handlers when it has any.
\<close>

fun effect :: "step \<Rightarrow> world \<Rightarrow> world" where
  "effect (Makedirs d) w = (if d \<in> set (dirs w) then w else w\<lparr>dirs := dirs w @ [d]\<rparr>)"
| "effect (EnsureFile p) w = w\<lparr>files := create_if_missing p (files w)\<rparr>"
| "effect (Chmod p m) w = w\<lparr>files := set_mode p m (files w)\<rparr>"
| "effect NewFormatter w = w\<lparr>formatter_state := \<lparr>include_stack_trace = False\<rparr>\<rparr>"
| "effect (NewQueue n) w = w"
| "effect NewQueueHandler w = w"
| "effect (NewRotatingFileHandler p max_bytes backups lvl) w = w\<lparr>files := create_if_missing p (files w)\<rparr>"
| "effect (NewStreamHandler lvl) w = w"
| "effect NewListener w = w"
| "effect StartListener w = w\<lparr>listeners_started := Suc (listeners_started w)\<rparr>"
| "effect ClearRootHandlers w = (if root_handlers w \<noteq> [] then w\<lparr>root_handlers := []\<rparr> else w)"
| "effect (AddHandler h) w =
     (if h \<in> set (root_handlers w) then w else w\<lparr>root_handlers := root_handlers w @ [h]\<rparr>)"
| "effect (SetRootLevel lvl) w = w\<lparr>root_level := Some lvl\<rparr>"
| "effect (SetPropagate b) w = w\<lparr>root_propagate := b\<rparr>"
| "effect (ErrorLoggerAddHandler h) w =
     (if h \<in> set (error_logger_handlers w) then w
      else w\<lparr>error_logger_handlers := error_logger_handlers w @ [h]\<rparr>)"
| "effect (ErrorLoggerSetLevel lvl) w = w\<lparr>error_logger_level := Some lvl\<rparr>"
| "effect (ErrorLoggerError m) w = w\<lparr>logged := logged w @ [(''logging_errors'', ERROR, m, [])]\<rparr>"
| "effect (LoggerInfo m extra) w = w\<lparr>logged := logged w @ [(''root'', INFO, m, extra)]\<rparr>"
| "effect SetIncludeStackTrace w = w\<lparr>formatter_state := (formatter_state w)\<lparr>include_stack_trace := True\<rparr>\<rparr>"

text \<open>
  A call raises when the surroundings make it (\<open>faults\<close>: a permission denied, a full
  disk, a patched method), and \<open>os.makedirs\<close> raises by itself on the empty path that
  \<open>dirname\<close> gives for a file name without a directory. A call that raises changes nothing.
\<close>

definition raises :: "(step \<Rightarrow> error option) \<Rightarrow> step \<Rightarrow> error option" where
  "raises faults st =
     (case faults st of
        Some err \<Rightarrow> Some err
      | None \<Rightarrow>
          (case st of
             Makedirs d \<Rightarrow>
               (if d = [] then Some (Exception ''FileNotFoundError'' ''[Errno 2] No such file or directory'')
                else None)
           | _ \<Rightarrow> None))"

fun run :: "(step \<Rightarrow> error option) \<Rightarrow> step list \<Rightarrow> world \<Rightarrow> world \<times> error option" where
  "run faults [] w = (w, None)"
| "run faults (st # sts) w =
     (case raises faults st of
        Some err \<Rightarrow> (w, Some err)
      | None \<Rightarrow> run faults sts (effect st w))"

text \<open>The body of the \<open>try\<close>, lines 46-124, in the order of the source.\<close>

text \<open>Lines 57-66: steps 1 and 2 of the bootstrap.\<close>

definition filesystem_steps :: "LoggingConfig \<Rightarrow> step list" where
  "filesystem_steps cfg =
     map (\<lambda>path. Makedirs (dirname path)) [log_file_path cfg, error_log_file_path cfg]
     @ concat (map (\<lambda>path. [EnsureFile path, Chmod path mode_600])
                 [log_file_path cfg, error_log_file_path cfg])"

text \<open>Lines 68-92: steps 3 and 4, the sinks, the queue and the worker.\<close>

definition construction_steps :: "LoggingConfig \<Rightarrow> step list" where
  "construction_steps cfg =
     [NewFormatter,
      NewQueue (log_queue_size cfg),
      NewQueueHandler,
      NewRotatingFileHandler (log_file_path cfg) (max_log_file_size cfg) (max_backup_files cfg)
        (file_log_level cfg),
      NewRotatingFileHandler (error_log_file_path cfg) (max_log_file_size cfg) (max_backup_files cfg)
        ERROR,
      NewStreamHandler (console_log_level cfg),
      NewListener,
      StartListener]"

text \<open>Lines 94-103: step 5, the root logger.\<close>

definition installation_steps :: "LoggingConfig \<Rightarrow> step list" where
  "installation_steps cfg =
     [ClearRootHandlers,
      AddHandler StreamHandler,
      AddHandler (RotatingFileHandler (log_file_path cfg)),
      AddHandler QueueHandler,
      SetRootLevel (log_level cfg),
      SetPropagate False]"

text \<open>Lines 105-122: the logger of logging errors, and steps 6 and 7.\<close>

definition configuration_error_line :: "string \<Rightarrow> string" where
  "configuration_error_line err = warning_sign @ '' Configuration Error: '' @ err"

definition closing_steps :: "LoggingConfig \<Rightarrow> string list \<Rightarrow> psutil_error + nat \<Rightarrow> step list" where
  "closing_steps cfg CONFIG_ERRORS probe =
     [ErrorLoggerAddHandler (RotatingFileHandler (error_log_file_path cfg)),
      ErrorLoggerSetLevel ERROR]
     @ map (\<lambda>err. ErrorLoggerError (configuration_error_line err)) CONFIG_ERRORS
     @ (if enable_memory_logging cfg
        then [LoggerInfo (info_sign @ '' Logging system initialized'')
                [(''memory_usage_mb'', get_memory_usage probe)]]
        else [])
     @ (if enable_stack_trace_logging cfg then [SetIncludeStackTrace] else [])"

definition steps_1_to_5 :: "LoggingConfig \<Rightarrow> step list" where
  "steps_1_to_5 cfg = filesystem_steps cfg @ construction_steps cfg @ installation_steps cfg"

definition steps_1_to_4 :: "LoggingConfig \<Rightarrow> step list" where
  "steps_1_to_4 cfg = filesystem_steps cfg @ construction_steps cfg"

text \<open>
  \<open>configure_logging\<close>: the state it leaves, and either the logger (the root logger) or
  the exception that leaves it. Line 126 catches an \<open>Exception\<close> and line 127 raises the
  \<open>LoggingConfigurationError\<close> built from its text.
\<close>

definition configuration_failure :: "string \<Rightarrow> error" where
  "configuration_failure m =
     Exception ''LoggingConfigurationError'' (cross_mark @ '' Error configuring logging: '' @ m)"

definition configure_logging ::
  "(step \<Rightarrow> error option) \<Rightarrow> LoggingConfig \<Rightarrow> string list \<Rightarrow> psutil_error + nat \<Rightarrow> world
     \<Rightarrow> world \<times> error option" where
  "configure_logging faults cfg CONFIG_ERRORS probe w =
     (case run faults (steps_1_to_5 cfg @ closing_steps cfg CONFIG_ERRORS probe) w of
        (w', None) \<Rightarrow> (w', None)
      | (w', Some (Exception cls m)) \<Rightarrow> (w', Some (configuration_failure m))
      | (w', Some (NonException cls m)) \<Rightarrow> (w', Some (NonException cls m)))"

text \<open>The exception raised while a list of calls runs: that of the first call that raises.\<close>

definition first_raised :: "(step \<Rightarrow> error option) \<Rightarrow> step list \<Rightarrow> error option" where
  "first_raised faults sts =
     (case List.find (\<lambda>st. raises faults st \<noteq> None) sts of
        None \<Rightarrow> None
      | Some st \<Rightarrow> raises faults st)"

section \<open>Concrete inputs\<close>

text \<open>
  The configuration of the repository's tests (\<open>mock_config\<close>), the same with the four
  feature flags off, a record as the tests build it, and an exception triple with a
  traceback.
\<close>

definition mock_config :: LoggingConfig where
  "mock_config =
     \<lparr>log_level = INFO, file_log_level = DEBUG, console_log_level = WARNING,
      log_file_path = ''logs/test_health_service.log'',
      error_log_file_path = ''logs/test_error.log'',
      log_queue_size = 10000, max_log_file_size = 5000000, max_backup_files = 5,
      enable_memory_logging = True, enable_execution_time_logging = True,
      enable_request_metadata = True, enable_stack_trace_logging = True\<rparr>"

definition flags_off_config :: LoggingConfig where
  "flags_off_config =
     mock_config\<lparr>enable_memory_logging := False, enable_execution_time_logging := False,
       enable_request_metadata := False, enable_stack_trace_logging := False\<rparr>"

text \<open>
  The operator \<open>%\<close> at the two messages with arguments that are used below:
  \<open>'%d items' % (3,)\<close> is \<open>'3 items'\<close>, and \<open>'%d items' % ('x',)\<close> raises. Every other call,
  of which there is none below, is answered as a message without a directive is on a tuple of
  arguments that is not empty.
\<close>

definition percent_sample :: "string \<Rightarrow> pyval \<Rightarrow> error + string" where
  "percent_sample m a =
     (if m = ''%d items'' \<and> a = PList [PInt 3] then Inr ''3 items''
      else if m = ''%d items'' \<and> a = PList [PStr ''x'']
        then Inl (Exception ''TypeError'' ''%d format: a real number is required, not str'')
      else Inl (Exception ''TypeError'' ''not all arguments converted during string formatting''))"

definition test_env :: env where
  "test_env =
     \<lparr>hostname = ''host-1'', environment_var = None, utcnow = ''2025-01-01T00:00:00+00:00'',
      strftime_gmtime = (\<lambda>t. ''2025-01-01T00:00:00''),
      memory_probe = (\<lambda>n. Inr 52428800),
      percent_format = percent_sample\<rparr>"

definition test_record :: "level \<Rightarrow> exc_triple option \<Rightarrow> pydict \<Rightarrow> log_record" where
  "test_record lvl ei ex =
     \<lparr>name = ''test_logger'', msg = ''Test log message'', args = PList [], level = lvl,
      pathname = ''tests/utils/test_logging.py'', filename = ''test_logging.py'',
      module = ''test_logging'', exc_info = ei, lineno = 10,
      funcName = ''test_custom_json_formatter'', created = 1735689600, msecs = 7,
      relativeCreated = 12, thread = 1, threadName = ''MainThread'',
      processName = ''MainProcess'', process = 4242, extras = ex\<rparr>"

definition test_error :: exc_triple where
  "test_error =
     \<lparr>exc_type = ''ValueError'', exc_value = ''Test error'',
      exc_traceback = Some [''  File test_logging.py, line 107, in test_custom_json_formatter'']\<rparr>"

definition plain_formatter :: formatter where
  "plain_formatter = \<lparr>include_stack_trace = False\<rparr>"

text \<open>
  The two sinks in the order of line 91, with working writes and with failing ones, and four
  settings of the process: the defaults, \<open>raiseExceptions\<close> switched off, a closed standard
  error, and both standard streams closed. The console sink writes to the stream that it took
  when it was constructed (line 86), so its write does not depend on what \<open>sys.stderr\<close> is
  when a record is dispatched.
\<close>

definition file_sink :: handler where
  "file_sink =
     \<lparr>handler_name = ''file'', handler_class = RotatingFileHandlerClass, handler_level = 10,
      write_raises = (\<lambda>r. None)\<rparr>"

definition disk_full :: error where
  "disk_full = Exception ''OSError'' ''[Errno 28] No space left on device''"

definition broken_file_sink :: handler where
  "broken_file_sink =
     \<lparr>handler_name = ''file'', handler_class = RotatingFileHandlerClass, handler_level = 10,
      write_raises = (\<lambda>r. Some disk_full)\<rparr>"

definition console_sink :: handler where
  "console_sink =
     \<lparr>handler_name = ''console'', handler_class = StreamHandlerClass, handler_level = 30,
      write_raises = (\<lambda>r. None)\<rparr>"

definition recursion_error :: error where
  "recursion_error = Exception ''RecursionError'' ''maximum recursion depth exceeded''"

definition recursing_console_sink :: handler where
  "recursing_console_sink =
     \<lparr>handler_name = ''console'', handler_class = StreamHandlerClass, handler_level = 30,
      write_raises = (\<lambda>r. Some recursion_error)\<rparr>"

definition closed_file :: error where
  "closed_file = Exception ''ValueError'' ''I/O operation on closed file.''"

definition default_channels :: channels where
  "default_channels = \<lparr>raiseExceptions = True, sys_stderr = Usable, sys_stdout = Usable\<rparr>"

definition silent_channels :: channels where
  "silent_channels = \<lparr>raiseExceptions = False, sys_stderr = Usable, sys_stdout = Usable\<rparr>"

definition closed_stderr_channels :: channels where
  "closed_stderr_channels =
     \<lparr>raiseExceptions = True, sys_stderr = Failing closed_file, sys_stdout = Usable\<rparr>"

definition closed_channels :: channels where
  "closed_channels =
     \<lparr>raiseExceptions = True, sys_stderr = Failing closed_file, sys_stdout = Failing closed_file\<rparr>"

definition idle :: dispatch_state where
  "idle = \<lparr>delivered = [], stderr_reports = [], printed = []\<rparr>"

text \<open>
  A process whose root logger already has a handler, and the two failures the tests
  inject: \<open>os.makedirs\<close> denied, and \<open>Logger.addHandler\<close> raising.
\<close>

definition running_process :: world where
  "running_process =
     \<lparr>dirs = [], files = [], root_handlers = [Installed ''previous''], root_level = Some WARNING,
      root_propagate = True, error_logger_handlers = [], error_logger_level = None,
      listeners_started = 0, logged = [], formatter_state = \<lparr>include_stack_trace = False\<rparr>\<rparr>"

definition makedirs_denied :: "step \<Rightarrow> error option" where
  "makedirs_denied st =
     (case st of
        Makedirs d \<Rightarrow> Some (Exception ''PermissionError'' ''Directory creation failed'')
      | _ \<Rightarrow> None)"

definition addHandler_fails :: "step \<Rightarrow> error option" where
  "addHandler_fails st =
     (case st of
        AddHandler h \<Rightarrow> Some (Exception ''Exception'' ''Unexpected failure'')
      | _ \<Rightarrow> None)"

section \<open>Dictionaries: lookups and keys\<close>

lemma map_of_dict_set [simp]:
  "map_of (dict_set k v d) k' = (if k' = k then Some v else map_of d k')"
  by (induction d) auto

lemma lookup_dict_set [simp]:
  "dict_lookup (dict_set k v d) k' = (if k' = k then Some v else dict_lookup d k')"
  by (simp add: dict_lookup_def)

lemma dict_has_set [simp]:
  "dict_has (dict_set k v d) k' = (k' = k \<or> dict_has d k')"
  by (simp add: dict_has_def)

lemma dict_get_set [simp]:
  "dict_get (dict_set k v d) k' dflt = (if k' = k then v else dict_get d k' dflt)"
  by (simp add: dict_get_def)

lemma lookup_add_request_metadata:
  "dict_lookup (add_request_metadata cfg r b d) k =
     (if enable_request_metadata cfg \<and> k \<in> set [''request_id'', ''user_id'', ''feed_type'']
      then Some (getattr r k (if b then dict_get d k UNKNOWN else UNKNOWN))
      else dict_lookup d k)"
  by (simp add: add_request_metadata_def Let_def)

lemma lookup_add_trace_fields:
  "dict_lookup (add_trace_fields r d) k =
     (if k \<in> set [''trace_id'', ''span_id'']
      then Some (getattr r k UNKNOWN)
      else dict_lookup d k)"
  by (simp add: add_trace_fields_def Let_def getattr_of_dict_def dict_attribute_names_def)

lemma lookup_add_debug_and_context:
  "k \<notin> set [''module'', ''function'', ''line'', ''process'', ''thread'', ''hostname'', ''environment'', ''timestamp'']
   \<Longrightarrow> dict_lookup (add_debug_and_context e r d) k = dict_lookup d k"
  by (simp add: add_debug_and_context_def Let_def)

lemma lookup_convert_time:
  "k \<noteq> ''time'' \<Longrightarrow> dict_lookup (convert_time d) k = dict_lookup d k"
  by (simp add: convert_time_def split: option.splits pyval.splits)

lemma lookup_add_execution_time:
  "dict_lookup (add_execution_time cfg r d) k =
     (if enable_execution_time_logging cfg \<and> k = ''execution_time_ms''
      then Some (getattr r ''execution_time_ms'' UNKNOWN) else dict_lookup d k)"
  by (simp add: add_execution_time_def)

lemma lookup_add_memory_usage:
  "dict_lookup (add_memory_usage cfg e n d) k =
     (if enable_memory_logging cfg \<and> k = ''memory_usage_mb''
      then Some (get_memory_usage (memory_probe e n)) else dict_lookup d k)"
  by (simp add: add_memory_usage_def)

lemma lookup_add_stack_trace_other:
  "k \<noteq> ''stack_trace'' \<Longrightarrow> dict_lookup (add_stack_trace r d) k = dict_lookup d k"
  by (simp add: add_stack_trace_def stack_trace_try_def format_exception_without_tb_def
      split: option.splits sum.splits error.splits)

lemma lookup_add_stack_trace:
  "dict_lookup (add_stack_trace r d) ''stack_trace'' =
     (if level r = ERROR \<or> level r = CRITICAL then
        (case exc_info r of
           None \<Rightarrow> Some (PStr no_exception_info)
         | Some ei \<Rightarrow>
            (case exc_traceback ei of
               Some frames \<Rightarrow> Some (PStr (format_exception ei))
             | None \<Rightarrow> Some (PStr (warning_sign @ '' Error retrieving stack trace: '' @
                                  ''Both or neither of value and tb must be given''))))
      else dict_lookup d ''stack_trace'')"
  by (cases "level r")
     (simp_all add: add_stack_trace_def stack_trace_try_def format_exception_without_tb_def levelname_def
      split: option.splits sum.splits error.splits)

lemma lookup_add_format_fields:
  "k \<notin> set [''levelname'', ''timestamp'', ''time'', ''module'', ''function'', ''line'', ''process'', ''thread'', ''hostname'', ''environment'']
   \<Longrightarrow> dict_lookup (add_format_fields e r d) k = dict_lookup d k"
  by (simp add: add_format_fields_def Let_def split: option.splits pyval.splits)

lemma lookup_add_exc_info_trace:
  "dict_lookup (add_exc_info_trace r d) k =
     (case exc_info r of
        Some ei \<Rightarrow> if k = ''stack_trace'' then Some (PStr (format_exception ei)) else dict_lookup d k
      | None \<Rightarrow> dict_lookup d k)"
  by (simp add: add_exc_info_trace_def split: option.splits)


lemma set_dict_set_subset: "set (dict_set k v d) \<subseteq> insert (k, v) (set d)"
  by (induction d) (auto split: if_splits)

lemma keys_dict_set:
  "map fst (dict_set k v d) = (if k \<in> set (map fst d) then map fst d else map fst d @ [k])"
  by (induction d) (force split: if_splits)+

lemma distinct_dict_set: "distinct (map fst d) \<Longrightarrow> distinct (map fst (dict_set k v d))"
  by (simp add: keys_dict_set)

lemma set_dict_set_distinct:
  "distinct (map fst d) \<Longrightarrow> set (dict_set k v d) = insert (k, v) {kv \<in> set d. fst kv \<noteq> k}"
proof (induction d)
  case Nil
  then show ?case by simp
next
  case (Cons p d)
  obtain k' v' where p: "p = (k', v')" by (cases p)
  show ?case
  proof (cases "k' = k")
    case True
    have "\<forall>kv \<in> set d. fst kv \<noteq> k" using Cons.prems p True by auto
    then show ?thesis using p True by auto
  next
    case False
    then show ?thesis using Cons p by auto
  qed
qed

lemma lookup_in_set: "dict_lookup d k = Some v \<Longrightarrow> (k, v) \<in> set d"
  by (simp add: dict_lookup_def map_of_SomeD)

lemma distinct_standard_attributes: "distinct (map fst (standard_attributes r))"
  by (simp add: standard_attributes_def)

lemma distinct_add_extras: "distinct (map fst d) \<Longrightarrow> distinct (map fst (add_extras es d))"
  by (induction es d rule: add_extras.induct) (simp_all add: distinct_dict_set)

lemma distinct_record_dict: "distinct (map fst (record_dict r))"
  by (simp add: record_dict_def distinct_add_extras distinct_standard_attributes)

lemma distinct_extract_loop:
  "distinct (map fst ef) \<Longrightarrow> distinct (map fst (extract_loop items ef))"
  by (induction items ef rule: extract_loop.induct) (simp_all add: distinct_dict_set)

lemma lookup_extract_loop:
  "distinct (map fst items) \<Longrightarrow>
   dict_lookup (extract_loop items ef) k =
     (if k \<in> set excluded_keys then dict_lookup ef k
      else (case dict_lookup items k of Some v \<Rightarrow> Some v | None \<Rightarrow> dict_lookup ef k))"
proof (induction items ef rule: extract_loop.induct)
  case (1 ef)
  then show ?case by (simp add: dict_lookup_def)
next
  case (2 key val items ef)
  have nk: "dict_lookup items key = None"
    using "2.prems" by (simp add: dict_lookup_def map_of_eq_None_iff)
  have d: "distinct (map fst items)" using "2.prems" by simp
  show ?case
    using "2.IH"[OF d] nk
    by (auto simp: dict_lookup_def split: option.splits)
qed

lemma lookup_extract_extra_fields:
  "dict_lookup (extract_extra_fields r) k =
     (if k \<in> set excluded_keys then None else dict_lookup (record_dict r) k)"
  by (simp add: extract_extra_fields_def lookup_extract_loop distinct_record_dict)
     (simp add: dict_lookup_def split: option.splits)

lemma dict_get_extract_extra_fields:
  "k \<notin> set excluded_keys \<Longrightarrow> dict_get (extract_extra_fields r) k dflt = getattr r k dflt"
  by (simp add: dict_get_def getattr_def lookup_extract_extra_fields)

lemma getattr_idem: "getattr r k (getattr r k dflt) = getattr r k dflt"
  by (simp add: getattr_def dict_get_def split: option.splits)


declare show_nat.simps [simp del]

lemma lookup_super_json_record_body:
  "dict_lookup (super_json_record_body e m d r) k =
     (if k = ''exc_info'' \<and> exc_info r \<noteq> None
        then Some (PStr (formatException (the (exc_info r))))
      else if k = ''time'' \<and> dict_lookup d ''time'' = None then Some (PDatetime (utcnow e))
      else if k = ''message'' then Some (PStr m)
      else dict_lookup d k)"
  by (cases "exc_info r") (auto simp: super_json_record_body_def Let_def dict_has_def)

lemma json_record_eq:
  "json_record cfg e r m x =
     Inr (json_record_blocks cfg e r True (super_json_record_body e m (dict_of_extra x) r))"
  by (cases x) (simp_all add: json_record_def super_json_record_def dict_of_extra_def)

lemma format_eq:
  "format self cfg e r =
     (case getMessage e r of
        Inl err \<Rightarrow> Inl err
      | Inr m \<Rightarrow>
          json_dumps (format_blocks cfg e r
            (json_record_blocks cfg e r True
              (super_json_record_body e m (extract_extra_fields r) r))))"
  by (simp add: format_def json_record_eq dict_of_extra_def split: sum.splits)

lemma returned_json_record: "returned (json_record cfg e r m x)"
  by (simp add: json_record_eq returned_def)

lemma field_json_record:
  "field (json_record cfg e r m x) k =
     dict_lookup (json_record_blocks cfg e r True (super_json_record_body e m (dict_of_extra x) r)) k"
  by (simp add: json_record_eq field_def)

lemma returned_format:
  "returned (format self cfg e r) =
     (message_formats e r \<and>
      all_serializable (format_blocks cfg e r
        (json_record_blocks cfg e r True
          (super_json_record_body e (message_of e r) (extract_extra_fields r) r))))"
  by (simp add: format_eq json_dumps_def returned_def message_formats_def message_of_def
      split: sum.splits)


lemma field_format:
  "returned (format self cfg e r) \<Longrightarrow>
   field (format self cfg e r) k =
     dict_lookup (format_blocks cfg e r
       (json_record_blocks cfg e r True
         (super_json_record_body e (message_of e r) (extract_extra_fields r) r))) k"
  by (simp add: returned_format)
     (simp add: format_eq json_dumps_def field_def message_formats_def message_of_def
      split: sum.splits)

lemma lookup_json_record_blocks_stack_trace:
  "dict_lookup (json_record_blocks cfg e r b d) ''stack_trace'' =
     (if level r = ERROR \<or> level r = CRITICAL then
        (case exc_info r of
           None \<Rightarrow> Some (PStr no_exception_info)
         | Some ei \<Rightarrow>
            (case exc_traceback ei of
               Some frames \<Rightarrow> Some (PStr (format_exception ei))
             | None \<Rightarrow> Some (PStr (warning_sign @ '' Error retrieving stack trace: '' @
                                  ''Both or neither of value and tb must be given''))))
      else dict_lookup d ''stack_trace'')"
  by (simp add: json_record_blocks_def lookup_add_stack_trace lookup_add_memory_usage
      lookup_add_execution_time lookup_convert_time lookup_add_debug_and_context
      lookup_add_trace_fields lookup_add_request_metadata)

lemma lookup_format_blocks_stack_trace:
  "dict_lookup (format_blocks cfg e r d) ''stack_trace'' =
     (case exc_info r of
        Some ei \<Rightarrow> Some (PStr (format_exception ei))
      | None \<Rightarrow> dict_lookup d ''stack_trace'')"
  by (simp add: format_blocks_def lookup_add_exc_info_trace lookup_add_memory_usage
      lookup_add_execution_time lookup_add_format_fields split: option.splits)

lemma lookup_json_record_blocks_trace:
  "k = ''trace_id'' \<or> k = ''span_id'' \<Longrightarrow>
   dict_lookup (json_record_blocks cfg e r b d) k = Some (getattr r k UNKNOWN)"
  by (auto simp: json_record_blocks_def lookup_add_stack_trace_other lookup_add_memory_usage
      lookup_add_execution_time lookup_convert_time lookup_add_debug_and_context
      lookup_add_trace_fields)

lemma lookup_json_record_blocks_request:
  "k = ''request_id'' \<or> k = ''user_id'' \<or> k = ''feed_type'' \<Longrightarrow>
   dict_lookup (json_record_blocks cfg e r b d) k =
     (if enable_request_metadata cfg
      then Some (getattr r k (if b then dict_get d k UNKNOWN else UNKNOWN))
      else dict_lookup d k)"
  by (auto simp: json_record_blocks_def lookup_add_stack_trace_other lookup_add_memory_usage
      lookup_add_execution_time lookup_convert_time lookup_add_debug_and_context
      lookup_add_trace_fields lookup_add_request_metadata)

lemma lookup_json_record_blocks_execution_time:
  "dict_lookup (json_record_blocks cfg e r b d) ''execution_time_ms'' =
     (if enable_execution_time_logging cfg
      then Some (getattr r ''execution_time_ms'' UNKNOWN)
      else dict_lookup d ''execution_time_ms'')"
  by (simp add: json_record_blocks_def lookup_add_stack_trace_other lookup_add_memory_usage
      lookup_add_execution_time lookup_convert_time lookup_add_debug_and_context
      lookup_add_trace_fields lookup_add_request_metadata)

lemma lookup_json_record_blocks_memory:
  "dict_lookup (json_record_blocks cfg e r b d) ''memory_usage_mb'' =
     (if enable_memory_logging cfg
      then Some (get_memory_usage (memory_probe e 0))
      else dict_lookup d ''memory_usage_mb'')"
  by (simp add: json_record_blocks_def lookup_add_stack_trace_other lookup_add_memory_usage
      lookup_add_execution_time lookup_convert_time lookup_add_debug_and_context
      lookup_add_trace_fields lookup_add_request_metadata)


lemma lookup_format_blocks_other:
  "k \<notin> set [''stack_trace'', ''memory_usage_mb'', ''execution_time_ms'', ''levelname'',
      ''timestamp'', ''time'', ''module'', ''function'', ''line'', ''process'', ''thread'',
      ''hostname'', ''environment''] \<Longrightarrow>
   dict_lookup (format_blocks cfg e r d) k = dict_lookup d k"
  by (simp add: format_blocks_def lookup_add_exc_info_trace lookup_add_memory_usage
      lookup_add_execution_time lookup_add_format_fields split: option.splits)

lemma lookup_format_blocks_execution_time:
  "dict_lookup (format_blocks cfg e r d) ''execution_time_ms'' =
     (if enable_execution_time_logging cfg
      then Some (getattr r ''execution_time_ms'' UNKNOWN)
      else dict_lookup d ''execution_time_ms'')"
  by (simp add: format_blocks_def lookup_add_exc_info_trace lookup_add_memory_usage
      lookup_add_execution_time lookup_add_format_fields split: option.splits)

lemma lookup_format_blocks_memory:
  "dict_lookup (format_blocks cfg e r d) ''memory_usage_mb'' =
     (if enable_memory_logging cfg
      then Some (get_memory_usage (memory_probe e 1))
      else dict_lookup d ''memory_usage_mb'')"
  by (simp add: format_blocks_def lookup_add_exc_info_trace lookup_add_memory_usage
      lookup_add_execution_time lookup_add_format_fields split: option.splits)


lemma all_serializable_iff:
  "all_serializable d = (\<forall>kv \<in> set d. json_serializable (snd kv))"
  by (simp add: all_serializable_def list_all_iff)

lemma serializable_but_time_iff:
  "serializable_but_time d =
     (distinct (map fst d) \<and>
      (\<forall>kv \<in> set d. json_serializable (snd kv) \<or> (fst kv = ''time'' \<and> is_datetime (snd kv))))"
  by (simp add: serializable_but_time_def list_all_iff)

lemma all_serializable_dict_set:
  "json_serializable v \<Longrightarrow> all_serializable d \<Longrightarrow> all_serializable (dict_set k v d)"
  using set_dict_set_subset[of k v d] by (auto simp: all_serializable_iff)

lemma serializable_but_time_dict_set:
  "json_serializable v \<Longrightarrow> serializable_but_time d \<Longrightarrow> serializable_but_time (dict_set k v d)"
  using set_dict_set_subset[of k v d] by (auto simp: serializable_but_time_iff distinct_dict_set)


lemma serializable_but_time_lookup:
  "serializable_but_time d \<Longrightarrow> dict_lookup d k = Some v \<Longrightarrow> k \<noteq> ''time'' \<Longrightarrow> json_serializable v"
  using lookup_in_set[of d k v] by (auto simp: serializable_but_time_iff)

lemma serializable_but_time_dict_get:
  "serializable_but_time d \<Longrightarrow> k \<noteq> ''time'' \<Longrightarrow> json_serializable dflt \<Longrightarrow>
   json_serializable (dict_get d k dflt)"
  by (auto simp: dict_get_def split: option.splits dest: serializable_but_time_lookup)

lemma add_extras_invariant:
  "\<forall>kv \<in> set d. Q kv \<Longrightarrow> \<forall>kv \<in> set es. Q kv \<Longrightarrow> \<forall>kv \<in> set (add_extras es d). Q kv"
proof (induction es d rule: add_extras.induct)
  case (1 d)
  then show ?case by simp
next
  case (2 k v es d)
  have "\<forall>kv \<in> set (dict_set k v d). Q kv"
    using "2.prems" set_dict_set_subset[of k v d] by auto
  with 2 show ?case by simp
qed

lemma record_dict_values:
  assumes "all_serializable (extras r)"
  shows "\<forall>kv \<in> set (record_dict r). fst kv \<in> set excluded_keys \<or> json_serializable (snd kv)"
  unfolding record_dict_def
proof (rule add_extras_invariant)
  show "\<forall>kv \<in> set (standard_attributes r). fst kv \<in> set excluded_keys \<or> json_serializable (snd kv)"
    by (simp add: standard_attributes_def excluded_keys_def)
  show "\<forall>kv \<in> set (extras r). fst kv \<in> set excluded_keys \<or> json_serializable (snd kv)"
    using assms by (simp add: all_serializable_iff)
qed

lemma getattr_serializable:
  assumes "all_serializable (extras r)" and "k \<notin> set excluded_keys" and "json_serializable dflt"
  shows "json_serializable (getattr r k dflt)"
proof (cases "dict_lookup (record_dict r) k")
  case None
  then show ?thesis using assms(3) by (simp add: getattr_def dict_get_def)
next
  case (Some v)
  then have "(k, v) \<in> set (record_dict r)" by (rule lookup_in_set)
  with record_dict_values[OF assms(1)] assms(2) have "json_serializable v" by auto
  with Some show ?thesis by (simp add: getattr_def dict_get_def)
qed

lemma extract_loop_serializable:
  "\<forall>kv \<in> set items. fst kv \<in> set excluded_keys \<or> json_serializable (snd kv) \<Longrightarrow>
   all_serializable ef \<Longrightarrow> all_serializable (extract_loop items ef)"
proof (induction items ef rule: extract_loop.induct)
  case (1 ef)
  then show ?case by simp
next
  case (2 key val items ef)
  show ?case
  proof (cases "key \<in> set excluded_keys")
    case True
    with 2 show ?thesis by simp
  next
    case False
    with "2.prems" have "json_serializable val" by simp
    then have "all_serializable (dict_set key val ef)"
      using "2.prems"(2) by (rule all_serializable_dict_set)
    with 2 False show ?thesis by simp
  qed
qed

lemma extract_extra_fields_serializable:
  "all_serializable (extras r) \<Longrightarrow> all_serializable (extract_extra_fields r)"
  unfolding extract_extra_fields_def
  by (rule extract_loop_serializable) (simp_all add: record_dict_values all_serializable_def)

lemma distinct_extract_extra_fields: "distinct (map fst (extract_extra_fields r))"
  by (simp add: extract_extra_fields_def distinct_extract_loop)

lemma UNKNOWN_serializable: "json_serializable UNKNOWN"
  by (simp add: UNKNOWN_def)

lemma super_json_record_body_serializable:
  assumes "distinct (map fst d)" and "all_serializable d"
  shows "serializable_but_time (super_json_record_body e m d r)"
proof -
  have 0: "serializable_but_time d"
    using assms by (auto simp: serializable_but_time_iff all_serializable_iff)
  have 1: "serializable_but_time (dict_set ''message'' (PStr m) d)"
    using 0 by (simp add: serializable_but_time_dict_set)
  have 2: "serializable_but_time (dict_set ''time'' (PDatetime (utcnow e)) (dict_set ''message'' (PStr m) d))"
    using 1 set_dict_set_subset[of "''time''" "PDatetime (utcnow e)" "dict_set ''message'' (PStr m) d"]
    by (auto simp: serializable_but_time_iff distinct_dict_set)
  show ?thesis
    using 1 2
    by (cases "exc_info r")
       (simp_all add: super_json_record_body_def Let_def serializable_but_time_dict_set)
qed

lemma json_record_head_serializable:
  assumes "all_serializable (extras r)" and "serializable_but_time d"
  shows "serializable_but_time
           (add_debug_and_context e r (add_trace_fields r (add_request_metadata cfg r b d)))"
proof -
  have g: "\<And>k dflt. k \<notin> set excluded_keys \<Longrightarrow> json_serializable dflt \<Longrightarrow>
             json_serializable (getattr r k dflt)"
    using assms(1) by (rule getattr_serializable)
  have ex: "''request_id'' \<notin> set excluded_keys" "''user_id'' \<notin> set excluded_keys"
    "''feed_type'' \<notin> set excluded_keys" "''trace_id'' \<notin> set excluded_keys"
    "''span_id'' \<notin> set excluded_keys" "''module'' \<notin> set excluded_keys"
    "''funcName'' \<notin> set excluded_keys" "''lineno'' \<notin> set excluded_keys"
    "''process'' \<notin> set excluded_keys" "''thread'' \<notin> set excluded_keys"
    by (simp_all add: excluded_keys_def)
  have 1: "serializable_but_time (add_request_metadata cfg r b d)"
    using assms(2)
    by (simp add: add_request_metadata_def Let_def serializable_but_time_dict_set g ex
        serializable_but_time_dict_get UNKNOWN_serializable)
  have 2: "serializable_but_time (add_trace_fields r (add_request_metadata cfg r b d))"
    using 1
    by (simp add: add_trace_fields_def Let_def serializable_but_time_dict_set g ex
        getattr_of_dict_def dict_attribute_names_def UNKNOWN_serializable)
  show ?thesis
    using 2
    by (simp add: add_debug_and_context_def Let_def serializable_but_time_dict_set g ex
        UNKNOWN_serializable)
qed

lemma convert_time_serializable:
  assumes "serializable_but_time d"
  shows "all_serializable (convert_time d)"
proof -
  have d: "distinct (map fst d)" using assms by (simp add: serializable_but_time_iff)
  have others: "\<forall>kv \<in> set d. fst kv \<noteq> ''time'' \<longrightarrow> json_serializable (snd kv)"
    using assms by (auto simp: serializable_but_time_iff)
  have replaced: "\<And>v. json_serializable v \<Longrightarrow> all_serializable (dict_set ''time'' v d)"
    using others by (auto simp: all_serializable_iff set_dict_set_distinct[OF d])
  show ?thesis
  proof (cases "dict_lookup d ''time''")
    case None
    then show ?thesis by (simp add: convert_time_def replaced)
  next
    case (Some v)
    then have "(''time'', v) \<in> set d" by (rule lookup_in_set)
    then have "json_serializable v \<or> is_datetime v"
      using assms by (auto simp: serializable_but_time_iff)
    then show ?thesis
      using Some by (cases v) (simp_all add: convert_time_def replaced)
  qed
qed

lemma get_memory_usage_serializable: "json_serializable (get_memory_usage probe)"
  by (simp add: get_memory_usage_def split: sum.splits psutil_error.splits)

lemma json_record_tail_serializable:
  assumes "all_serializable (extras r)" and "all_serializable d"
  shows "all_serializable (add_stack_trace r (add_memory_usage cfg e n (add_execution_time cfg r d)))"
proof -
  have 1: "all_serializable (add_execution_time cfg r d)"
    using assms
    by (simp add: add_execution_time_def all_serializable_dict_set getattr_serializable
        excluded_keys_def UNKNOWN_serializable)
  have 2: "all_serializable (add_memory_usage cfg e n (add_execution_time cfg r d))"
    using 1 by (simp add: add_memory_usage_def all_serializable_dict_set get_memory_usage_serializable)
  show ?thesis
    using 2
    by (simp add: add_stack_trace_def stack_trace_try_def format_exception_without_tb_def
        all_serializable_dict_set split: option.splits)
qed

lemma json_record_blocks_serializable:
  assumes "all_serializable (extras r)" and "serializable_but_time d"
  shows "all_serializable (json_record_blocks cfg e r b d)"
  unfolding json_record_blocks_def
  by (intro json_record_tail_serializable convert_time_serializable json_record_head_serializable assms)

lemma format_blocks_serializable:
  assumes "all_serializable (extras r)" and "all_serializable d"
  shows "all_serializable (format_blocks cfg e r d)"
proof -
  have 1: "all_serializable (add_format_fields e r d)"
    using assms(2)
    by (simp add: add_format_fields_def Let_def all_serializable_dict_set
        split: option.splits pyval.splits)
  have 2: "all_serializable (add_execution_time cfg r (add_format_fields e r d))"
    using 1 assms(1)
    by (simp add: add_execution_time_def all_serializable_dict_set getattr_serializable
        excluded_keys_def UNKNOWN_serializable)
  have 3: "all_serializable (add_memory_usage cfg e 1 (add_execution_time cfg r (add_format_fields e r d)))"
    using 2 by (simp add: add_memory_usage_def all_serializable_dict_set get_memory_usage_serializable)
  show ?thesis
    using 3
    by (simp add: format_blocks_def add_exc_info_trace_def all_serializable_dict_set
        split: option.splits)
qed

lemma format_returns:
  assumes "all_serializable (extras r)" and "message_formats e r"
  shows "returned (format self cfg e r)"
  unfolding returned_format
  by (intro conjI assms(2) format_blocks_serializable json_record_blocks_serializable
      super_json_record_body_serializable distinct_extract_extra_fields
      extract_extra_fields_serializable assms(1))


text \<open>A record without arguments has its \<open>msg\<close> as its message.\<close>

lemma format_ok: "message_formats e (test_record lvl ei ex)"
  by (simp add: message_formats_def getMessage_def test_record_def)

text \<open>The definitions that evaluate the attributes of a concrete record.\<close>

lemmas record_eval = hasattr_def getattr_def dict_has_def dict_get_def dict_lookup_def
  record_dict_def standard_attributes_def standard_names_def test_record_def levelname_def
  levelno_def

section \<open>Fields of the records that \<open>json_record\<close> and \<open>format\<close> return\<close>

lemma dict_get_super_json_record_body:
  "k \<notin> set [''exc_info'', ''time'', ''message''] \<Longrightarrow>
   dict_get (super_json_record_body e m d r) k dflt = dict_get d k dflt"
  by (simp add: dict_get_def lookup_super_json_record_body)

lemma field_json_record_request:
  assumes "k = ''request_id'' \<or> k = ''user_id'' \<or> k = ''feed_type''"
  shows "field (json_record cfg e r m x) k =
     (if enable_request_metadata cfg
      then Some (getattr r k (dict_get (dict_of_extra x) k UNKNOWN))
      else dict_lookup (dict_of_extra x) k)"
proof -
  have g: "dict_get (super_json_record_body e m (dict_of_extra x) r) k UNKNOWN
           = dict_get (dict_of_extra x) k UNKNOWN"
    using assms by (intro dict_get_super_json_record_body) auto
  have l: "dict_lookup (super_json_record_body e m (dict_of_extra x) r) k
           = dict_lookup (dict_of_extra x) k"
    using assms by (auto simp: lookup_super_json_record_body)
  show ?thesis
    by (simp add: field_json_record lookup_json_record_blocks_request[OF assms] g l)
qed

lemma field_json_record_trace:
  assumes "k = ''trace_id'' \<or> k = ''span_id''"
  shows "field (json_record cfg e r m x) k = Some (getattr r k UNKNOWN)"
  using assms by (simp add: field_json_record lookup_json_record_blocks_trace)

lemma field_format_request:
  assumes "returned (format self cfg e r)"
    and "k = ''request_id'' \<or> k = ''user_id'' \<or> k = ''feed_type''"
  shows "field (format self cfg e r) k =
     (if enable_request_metadata cfg then Some (getattr r k UNKNOWN)
      else dict_lookup (record_dict r) k)"
  using assms(2)
  by (auto simp: field_format[OF assms(1)] lookup_format_blocks_other
      lookup_json_record_blocks_request dict_get_super_json_record_body
      lookup_super_json_record_body lookup_extract_extra_fields
      dict_get_extract_extra_fields excluded_keys_def getattr_idem)

lemma field_format_trace:
  assumes "returned (format self cfg e r)" and "k = ''trace_id'' \<or> k = ''span_id''"
  shows "field (format self cfg e r) k = Some (getattr r k UNKNOWN)"
  using assms(2)
  by (auto simp: field_format[OF assms(1)] lookup_format_blocks_other
      lookup_json_record_blocks_trace)

lemma field_format_execution_time:
  assumes "returned (format self cfg e r)"
  shows "field (format self cfg e r) ''execution_time_ms'' =
     (if enable_execution_time_logging cfg then Some (getattr r ''execution_time_ms'' UNKNOWN)
      else dict_lookup (record_dict r) ''execution_time_ms'')"
  by (simp add: field_format[OF assms] lookup_format_blocks_execution_time
      lookup_json_record_blocks_execution_time lookup_super_json_record_body
      lookup_extract_extra_fields excluded_keys_def)

lemma field_format_memory:
  assumes "returned (format self cfg e r)"
  shows "field (format self cfg e r) ''memory_usage_mb'' =
     (if enable_memory_logging cfg then Some (get_memory_usage (memory_probe e 1))
      else dict_lookup (record_dict r) ''memory_usage_mb'')"
  by (simp add: field_format[OF assms] lookup_format_blocks_memory
      lookup_json_record_blocks_memory lookup_super_json_record_body
      lookup_extract_extra_fields excluded_keys_def)

lemma field_format_stack_trace:
  assumes "returned (format self cfg e r)"
  shows "field (format self cfg e r) ''stack_trace'' =
     (case exc_info r of
        Some ei \<Rightarrow> Some (PStr (format_exception ei))
      | None \<Rightarrow>
          if level r = ERROR \<or> level r = CRITICAL then Some (PStr no_exception_info)
          else dict_lookup (record_dict r) ''stack_trace'')"
  by (simp add: field_format[OF assms] lookup_format_blocks_stack_trace
      lookup_json_record_blocks_stack_trace lookup_super_json_record_body
      lookup_extract_extra_fields excluded_keys_def split: option.splits)

lemma round_half_even_near:
  assumes "0 < q"
  shows "2 * \<bar>round_half_even p q * int q - int p\<bar> \<le> int q"
proof -
  have p: "int p = int (p div q) * int q + int (p mod q)"
    by (metis div_mult_mod_eq of_nat_add of_nat_mult)
  have r: "p mod q < q" using assms by simp
  show ?thesis
    using p r
    by (auto simp: round_half_even_def Let_def algebra_simps)
qed

section \<open>The claims about the formatter\<close>

text \<open>
  C7. For every record whose severity is \<open>ERROR\<close> or \<open>CRITICAL\<close> and whose \<open>exc_info\<close> is
  \<open>None\<close>, the \<open>stack_trace\<close> field is the fixed sentinel that says an exception occurred but
  no exception info was available: in the record \<open>json_record\<close> returns, whatever the
  configuration, the message and the \<open>extra\<close> argument, and in the record \<open>format\<close> emits
  whenever it emits one.
\<close>

theorem error_without_exc_info_has_sentinel:
  assumes "level r = ERROR \<or> level r = CRITICAL" and "exc_info r = None"
  shows "field (json_record cfg e r m x) ''stack_trace'' = Some (PStr no_exception_info)
       \<and> (returned (format self cfg e r)
            \<longrightarrow> field (format self cfg e r) ''stack_trace'' = Some (PStr no_exception_info))"
  using assms
  by (auto simp: field_json_record field_format lookup_json_record_blocks_stack_trace
      lookup_format_blocks_stack_trace)

text \<open>An \<open>ERROR\<close> record without exception info, under the configuration of the tests.\<close>

theorem error_without_exc_info_has_sentinel_witness:
  "field (json_record mock_config test_env (test_record ERROR None []) ''Test log message'' (Dict []))
     ''stack_trace'' = Some (PStr no_exception_info)
   \<and> returned (format plain_formatter mock_config test_env (test_record ERROR None []))
   \<and> field (format plain_formatter mock_config test_env (test_record ERROR None []))
       ''stack_trace'' = Some (PStr no_exception_info)"
proof -
  have l: "level (test_record ERROR None []) = ERROR \<or> level (test_record ERROR None []) = CRITICAL"
    by (simp add: test_record_def)
  have x: "exc_info (test_record ERROR None []) = None"
    by (simp add: test_record_def)
  have r: "returned (format plain_formatter mock_config test_env (test_record ERROR None []))"
    by (rule format_returns) (simp add: test_record_def all_serializable_def, rule format_ok)
  show ?thesis
    using error_without_exc_info_has_sentinel[OF l x, of mock_config test_env
        "''Test log message''" "Dict []" plain_formatter] r
    by simp
qed

text \<open>
  C9. For every log record that has no \<open>trace_id\<close> (resp. \<open>span_id\<close>) attribute,
  \<open>json_record\<close> sets the record's \<open>trace_id\<close> (resp. \<open>span_id\<close>) to \<open>"UNKNOWN"\<close>, whatever
  the \<open>extra\<close> argument is, so also when the dictionary passed as \<open>extra\<close> has that key: the
  fallback of lines 107-108 reads an attribute of the dictionary, never one of its keys.
\<close>

theorem trace_fields_ignore_extra_keys:
  "(\<not> hasattr r ''trace_id''
      \<longrightarrow> field (json_record cfg e r m x) ''trace_id'' = Some (PStr ''UNKNOWN''))
   \<and> (\<not> hasattr r ''span_id''
      \<longrightarrow> field (json_record cfg e r m x) ''span_id'' = Some (PStr ''UNKNOWN''))"
  by (simp add: field_json_record lookup_json_record_blocks_trace getattr_def hasattr_def
      dict_has_def dict_get_def UNKNOWN_def)

text \<open>A record without the two attributes, and an \<open>extra\<close> dictionary that has both keys.\<close>

theorem trace_fields_ignore_extra_keys_witness:
  "\<not> hasattr (test_record INFO None []) ''trace_id''
   \<and> \<not> hasattr (test_record INFO None []) ''span_id''
   \<and> dict_lookup [(''trace_id'', PStr ''abc''), (''span_id'', PStr ''def'')] ''trace_id'' = Some (PStr ''abc'')
   \<and> dict_lookup [(''trace_id'', PStr ''abc''), (''span_id'', PStr ''def'')] ''span_id'' = Some (PStr ''def'')
   \<and> field (json_record mock_config test_env (test_record INFO None []) ''Test log message''
         (Dict [(''trace_id'', PStr ''abc''), (''span_id'', PStr ''def'')])) ''trace_id''
       = Some (PStr ''UNKNOWN'')
   \<and> field (json_record mock_config test_env (test_record INFO None []) ''Test log message''
         (Dict [(''trace_id'', PStr ''abc''), (''span_id'', PStr ''def'')])) ''span_id''
       = Some (PStr ''UNKNOWN'')"
proof -
  have t: "\<not> hasattr (test_record INFO None []) ''trace_id''"
    by (simp add: record_eval)
  have s: "\<not> hasattr (test_record INFO None []) ''span_id''"
    by (simp add: record_eval)
  show ?thesis
    using trace_fields_ignore_extra_keys[of "test_record INFO None []" mock_config test_env
        "''Test log message''" "Dict [(''trace_id'', PStr ''abc''), (''span_id'', PStr ''def'')]"] t s
    by (simp add: dict_lookup_def)
qed

text \<open>
  C10. For every call of \<open>json_record\<close> whose \<open>extra\<close> argument is not a dictionary (for example
  \<open>None\<close>), the call does not raise and returns what the call with an empty dictionary
  returns.
\<close>

theorem extra_not_a_dict_is_empty_dict:
  assumes "\<not> isinstance_dict x"
  shows "returned (json_record cfg e r m x)
       \<and> json_record cfg e r m x = json_record cfg e r m (Dict [])"
  using assms by (cases x) (simp_all add: json_record_eq dict_of_extra_def returned_def)

text \<open>The call with \<open>extra=None\<close>.\<close>

theorem extra_not_a_dict_is_empty_dict_witness:
  "\<not> isinstance_dict (NotADict PNone)
   \<and> returned (json_record mock_config test_env (test_record INFO None []) ''Test log message'' (NotADict PNone))
   \<and> json_record mock_config test_env (test_record INFO None []) ''Test log message'' (NotADict PNone)
     = json_record mock_config test_env (test_record INFO None []) ''Test log message'' (Dict [])"
proof -
  have n: "\<not> isinstance_dict (NotADict PNone)" by simp
  show ?thesis
    using extra_not_a_dict_is_empty_dict[OF n, of mock_config test_env "test_record INFO None []"
        "''Test log message''"] n
    by blast
qed

text \<open>
  C1. The claim is that a record whose severity is below \<open>ERROR\<close> never carries a
  \<open>stack_trace\<close> field, with or without \<open>exc_info\<close>. On a \<open>WARNING\<close> record with an exception
  triple attached, \<open>json_record\<close> adds no \<open>stack_trace\<close>, as the claim says; lines 72-74 of
  \<open>format\<close> then add it for any severity, and the emitted record carries the rendered
  exception.
\<close>

theorem warning_with_exc_info_has_stack_trace:
  "levelno (test_record WARNING (Some test_error) []) < levelno_of ERROR
   \<and> field (json_record mock_config test_env (test_record WARNING (Some test_error) [])
        ''Test log message'' (Dict (extract_extra_fields (test_record WARNING (Some test_error) []))))
        ''stack_trace'' = None
   \<and> returned (format plain_formatter mock_config test_env (test_record WARNING (Some test_error) []))
   \<and> field (format plain_formatter mock_config test_env (test_record WARNING (Some test_error) []))
        ''stack_trace'' = Some (PStr (format_exception test_error))"
proof -
  let ?r = "test_record WARNING (Some test_error) []"
  have r: "returned (format plain_formatter mock_config test_env ?r)"
    by (rule format_returns) (simp add: test_record_def all_serializable_def, rule format_ok)
  have e: "exc_info ?r = Some test_error" by (simp add: test_record_def)
  have l: "level ?r = WARNING" by (simp add: test_record_def)
  have a: "dict_lookup (record_dict ?r) ''stack_trace'' = None"
    by (simp add: record_eval)
  have j: "field (json_record mock_config test_env ?r ''Test log message''
             (Dict (extract_extra_fields ?r))) ''stack_trace'' = None"
    using l a
    by (simp add: field_json_record lookup_json_record_blocks_stack_trace
        lookup_super_json_record_body dict_of_extra_def lookup_extract_extra_fields)
  have f: "field (format plain_formatter mock_config test_env ?r) ''stack_trace''
           = Some (PStr (format_exception test_error))"
    using e by (simp add: field_format[OF r] lookup_format_blocks_stack_trace)
  show ?thesis using r j f l by (simp add: levelno_def)
qed

text \<open>
  C2, as stated, fails: with \<open>enable_request_metadata\<close> off, \<open>trace_id\<close> is still in the record
  that \<open>json_record\<close> returns and in the record that \<open>format\<close> emits. Lines 106-108 stand
  outside the test of the flag.
\<close>

theorem request_metadata_off_keeps_trace_id:
  "\<not> enable_request_metadata flags_off_config
   \<and> field (json_record flags_off_config test_env (test_record INFO None []) ''Test log message''
        (Dict [])) ''trace_id'' = Some (PStr ''UNKNOWN'')
   \<and> returned (format plain_formatter flags_off_config test_env (test_record INFO None []))
   \<and> field (format plain_formatter flags_off_config test_env (test_record INFO None []))
        ''trace_id'' = Some (PStr ''UNKNOWN'')"
proof -
  let ?r = "test_record INFO None []"
  have r: "returned (format plain_formatter flags_off_config test_env ?r)"
    by (rule format_returns) (simp add: test_record_def all_serializable_def, rule format_ok)
  have g: "getattr ?r ''trace_id'' UNKNOWN = PStr ''UNKNOWN''"
    by (simp add: record_eval UNKNOWN_def)
  show ?thesis
    using r g
    by (simp add: field_json_record_trace field_format_trace flags_off_config_def)
qed

text \<open>
  C2, amended. With \<open>enable_request_metadata\<close> on, each of \<open>request_id\<close>, \<open>user_id\<close> and
  \<open>feed_type\<close> is copied from the event metadata, that is the attribute of the log record if it
  has one, else the key of the \<open>extra\<close> dictionary if it has one, and is \<open>"UNKNOWN"\<close>
  otherwise. With the flag off the formatter adds none of the three: each is in the record
  exactly when the \<open>extra\<close> dictionary carries it, unchanged. \<open>trace_id\<close> and \<open>span_id\<close> are
  in every record whatever the flag, and hold the attribute of the log record when it has one.
\<close>

theorem request_metadata_by_flag:
  "(enable_request_metadata cfg \<longrightarrow>
      (\<forall>k \<in> set [''request_id'', ''user_id'', ''feed_type''].
         field (json_record cfg e r m x) k
           = Some (getattr r k (dict_get (dict_of_extra x) k UNKNOWN))))
   \<and> (\<not> enable_request_metadata cfg \<longrightarrow>
      (\<forall>k \<in> set [''request_id'', ''user_id'', ''feed_type''].
         field (json_record cfg e r m x) k = dict_lookup (dict_of_extra x) k))
   \<and> (\<forall>k \<in> set [''trace_id'', ''span_id''].
         field (json_record cfg e r m x) k \<noteq> None
         \<and> (hasattr r k \<longrightarrow> field (json_record cfg e r m x) k = Some (getattr r k UNKNOWN)))"
  by (simp add: field_json_record_request field_json_record_trace)

text \<open>
  A record that carries \<open>request_id\<close> and \<open>trace_id\<close>, with \<open>user_id\<close> in the \<open>extra\<close>
  dictionary, under the flag on and under the flag off.
\<close>

theorem request_metadata_by_flag_witness:
  "enable_request_metadata mock_config
   \<and> field (json_record mock_config test_env
         (test_record INFO None [(''request_id'', PStr ''12345''), (''trace_id'', PStr ''t-1'')])
         ''Test log message'' (Dict [(''user_id'', PStr ''67890'')])) ''request_id''
       = Some (PStr ''12345'')
   \<and> field (json_record mock_config test_env
         (test_record INFO None [(''request_id'', PStr ''12345''), (''trace_id'', PStr ''t-1'')])
         ''Test log message'' (Dict [(''user_id'', PStr ''67890'')])) ''user_id''
       = Some (PStr ''67890'')
   \<and> field (json_record mock_config test_env
         (test_record INFO None [(''request_id'', PStr ''12345''), (''trace_id'', PStr ''t-1'')])
         ''Test log message'' (Dict [(''user_id'', PStr ''67890'')])) ''feed_type''
       = Some (PStr ''UNKNOWN'')
   \<and> \<not> enable_request_metadata flags_off_config
   \<and> field (json_record flags_off_config test_env
         (test_record INFO None [(''request_id'', PStr ''12345''), (''trace_id'', PStr ''t-1'')])
         ''Test log message'' (Dict [(''user_id'', PStr ''67890'')])) ''request_id''
       = None
   \<and> field (json_record flags_off_config test_env
         (test_record INFO None [(''request_id'', PStr ''12345''), (''trace_id'', PStr ''t-1'')])
         ''Test log message'' (Dict [(''user_id'', PStr ''67890'')])) ''user_id''
       = Some (PStr ''67890'')
   \<and> hasattr (test_record INFO None [(''request_id'', PStr ''12345''), (''trace_id'', PStr ''t-1'')])
         ''trace_id''
   \<and> field (json_record flags_off_config test_env
         (test_record INFO None [(''request_id'', PStr ''12345''), (''trace_id'', PStr ''t-1'')])
         ''Test log message'' (Dict [(''user_id'', PStr ''67890'')])) ''trace_id''
       = Some (PStr ''t-1'')"
proof -
  let ?r = "test_record INFO None [(''request_id'', PStr ''12345''), (''trace_id'', PStr ''t-1'')]"
  let ?x = "Dict [(''user_id'', PStr ''67890'')]"
  have on: "enable_request_metadata mock_config" by (simp add: mock_config_def)
  have off: "\<not> enable_request_metadata flags_off_config" by (simp add: flags_off_config_def)
  have h: "hasattr ?r ''trace_id''" by (simp add: record_eval)
  have g1: "getattr ?r ''request_id'' (dict_get (dict_of_extra ?x) ''request_id'' UNKNOWN) = PStr ''12345''"
    by (simp add: record_eval)
  have g2: "getattr ?r ''user_id'' (dict_get (dict_of_extra ?x) ''user_id'' UNKNOWN) = PStr ''67890''"
    by (simp add: record_eval dict_of_extra_def)
  have g3: "getattr ?r ''feed_type'' (dict_get (dict_of_extra ?x) ''feed_type'' UNKNOWN) = PStr ''UNKNOWN''"
    by (simp add: record_eval dict_of_extra_def UNKNOWN_def)
  have g4: "getattr ?r ''trace_id'' UNKNOWN = PStr ''t-1''"
    by (simp add: record_eval)
  have l1: "dict_lookup (dict_of_extra ?x) ''request_id'' = None"
    by (simp add: dict_of_extra_def dict_lookup_def)
  have l2: "dict_lookup (dict_of_extra ?x) ''user_id'' = Some (PStr ''67890'')"
    by (simp add: dict_of_extra_def dict_lookup_def)
  show ?thesis
    using request_metadata_by_flag[of mock_config test_env ?r "''Test log message''" ?x]
      request_metadata_by_flag[of flags_off_config test_env ?r "''Test log message''" ?x]
      on off h g1 g2 g3 g4 l1 l2
    by simp
qed




text \<open>
  C6, as stated, fails. With \<open>enable_stack_trace_logging\<close> off an \<open>ERROR\<close> record still carries
  \<open>stack_trace\<close>; with the flag on, and the attribute \<open>include_stack_trace\<close> set, an \<open>INFO\<close>
  record carries none; and with \<open>enable_request_metadata\<close> off \<open>span_id\<close> is still there.
\<close>

theorem flags_do_not_decide_every_field:
  "\<not> enable_stack_trace_logging flags_off_config
   \<and> returned (format plain_formatter flags_off_config test_env (test_record ERROR None []))
   \<and> field (format plain_formatter flags_off_config test_env (test_record ERROR None []))
        ''stack_trace'' = Some (PStr no_exception_info)
   \<and> enable_stack_trace_logging mock_config
   \<and> returned (format \<lparr>include_stack_trace = True\<rparr> mock_config test_env (test_record INFO None []))
   \<and> field (format \<lparr>include_stack_trace = True\<rparr> mock_config test_env (test_record INFO None []))
        ''stack_trace'' = None
   \<and> \<not> enable_request_metadata flags_off_config
   \<and> field (format plain_formatter flags_off_config test_env (test_record ERROR None []))
        ''span_id'' = Some (PStr ''UNKNOWN'')"
proof -
  let ?e = "test_record ERROR None []"
  let ?i = "test_record INFO None []"
  have r1: "returned (format plain_formatter flags_off_config test_env ?e)"
    by (rule format_returns) (simp add: test_record_def all_serializable_def, rule format_ok)
  have r2: "returned (format \<lparr>include_stack_trace = True\<rparr> mock_config test_env ?i)"
    by (rule format_returns) (simp add: test_record_def all_serializable_def, rule format_ok)
  have le: "level ?e = ERROR" "exc_info ?e = None" by (simp_all add: test_record_def)
  have li: "level ?i = INFO" "exc_info ?i = None" by (simp_all add: test_record_def)
  have s1: "field (format plain_formatter flags_off_config test_env ?e) ''stack_trace''
            = Some (PStr no_exception_info)"
    by (simp add: field_format_stack_trace[OF r1] le)
  have a: "dict_lookup (record_dict ?i) ''stack_trace'' = None"
    by (simp add: record_eval)
  have s2: "field (format \<lparr>include_stack_trace = True\<rparr> mock_config test_env ?i) ''stack_trace'' = None"
    by (simp add: field_format_stack_trace[OF r2] li a)
  have g: "getattr ?e ''span_id'' UNKNOWN = PStr ''UNKNOWN''"
    by (simp add: record_eval UNKNOWN_def)
  have s3: "field (format plain_formatter flags_off_config test_env ?e) ''span_id''
            = Some (PStr ''UNKNOWN'')"
    using g by (simp add: field_format_trace[OF r1])
  have flags: "\<not> enable_stack_trace_logging flags_off_config"
    "enable_stack_trace_logging mock_config" "\<not> enable_request_metadata flags_off_config"
    by (simp_all add: flags_off_config_def mock_config_def)
  show ?thesis
    using r1 r2 s1 s2 s3 flags by blast
qed

text \<open>
  C6, amended. For a fixed configuration and every emitted record: \<open>execution_time_ms\<close>,
  \<open>memory_usage_mb\<close> and the request fields \<open>request_id\<close>, \<open>user_id\<close>, \<open>feed_type\<close> are present
  when their flag is on (the value attached to the record or \<open>"UNKNOWN"\<close>; the value of the
  memory probe); when the flag is off the formatter adds none of them, so the field is present
  exactly when the event's own metadata carries it, unchanged. \<open>trace_id\<close> and \<open>span_id\<close> are
  in every emitted record under every configuration. Nothing is said here about
  \<open>stack_trace\<close> and its flag.
\<close>

theorem flag_governed_fields:
  assumes "returned (format self cfg e r)"
  shows "(enable_execution_time_logging cfg \<longrightarrow>
            field (format self cfg e r) ''execution_time_ms''
              = Some (getattr r ''execution_time_ms'' UNKNOWN))
       \<and> (\<not> enable_execution_time_logging cfg \<longrightarrow>
            field (format self cfg e r) ''execution_time_ms''
              = dict_lookup (record_dict r) ''execution_time_ms'')
       \<and> (enable_memory_logging cfg \<longrightarrow>
            field (format self cfg e r) ''memory_usage_mb''
              = Some (get_memory_usage (memory_probe e 1)))
       \<and> (\<not> enable_memory_logging cfg \<longrightarrow>
            field (format self cfg e r) ''memory_usage_mb''
              = dict_lookup (record_dict r) ''memory_usage_mb'')
       \<and> (\<forall>k \<in> set [''request_id'', ''user_id'', ''feed_type''].
            (enable_request_metadata cfg \<longrightarrow>
               field (format self cfg e r) k = Some (getattr r k UNKNOWN))
            \<and> (\<not> enable_request_metadata cfg \<longrightarrow>
               field (format self cfg e r) k = dict_lookup (record_dict r) k))
       \<and> (\<forall>k \<in> set [''trace_id'', ''span_id''].
            field (format self cfg e r) k = Some (getattr r k UNKNOWN))"
  by (simp add: field_format_execution_time[OF assms] field_format_memory[OF assms]
      field_format_request[OF assms] field_format_trace[OF assms])

text \<open>
  One record without metadata, under the configuration of the tests and with all flags off.
\<close>

theorem flag_governed_fields_witness:
  "returned (format plain_formatter mock_config test_env (test_record INFO None []))
   \<and> enable_execution_time_logging mock_config
   \<and> field (format plain_formatter mock_config test_env (test_record INFO None []))
        ''execution_time_ms'' = Some (PStr ''UNKNOWN'')
   \<and> enable_memory_logging mock_config
   \<and> field (format plain_formatter mock_config test_env (test_record INFO None []))
        ''memory_usage_mb'' = Some (PFloat2 5000)
   \<and> enable_request_metadata mock_config
   \<and> field (format plain_formatter mock_config test_env (test_record INFO None []))
        ''request_id'' = Some (PStr ''UNKNOWN'')
   \<and> returned (format plain_formatter flags_off_config test_env (test_record INFO None []))
   \<and> \<not> enable_execution_time_logging flags_off_config
   \<and> field (format plain_formatter flags_off_config test_env (test_record INFO None []))
        ''execution_time_ms'' = None
   \<and> \<not> enable_memory_logging flags_off_config
   \<and> field (format plain_formatter flags_off_config test_env (test_record INFO None []))
        ''memory_usage_mb'' = None
   \<and> \<not> enable_request_metadata flags_off_config
   \<and> field (format plain_formatter flags_off_config test_env (test_record INFO None []))
        ''request_id'' = None
   \<and> field (format plain_formatter flags_off_config test_env (test_record INFO None []))
        ''trace_id'' = Some (PStr ''UNKNOWN'')"
proof -
  let ?r = "test_record INFO None []"
  have r1: "returned (format plain_formatter mock_config test_env ?r)"
    by (rule format_returns) (simp add: test_record_def all_serializable_def, rule format_ok)
  have r2: "returned (format plain_formatter flags_off_config test_env ?r)"
    by (rule format_returns) (simp add: test_record_def all_serializable_def, rule format_ok)
  have g: "getattr ?r ''execution_time_ms'' UNKNOWN = PStr ''UNKNOWN''"
    "getattr ?r ''request_id'' UNKNOWN = PStr ''UNKNOWN''"
    "getattr ?r ''trace_id'' UNKNOWN = PStr ''UNKNOWN''"
    by (simp_all add: record_eval UNKNOWN_def)
  have l: "dict_lookup (record_dict ?r) ''execution_time_ms'' = None"
    "dict_lookup (record_dict ?r) ''memory_usage_mb'' = None"
    "dict_lookup (record_dict ?r) ''request_id'' = None"
    by (simp_all add: record_eval)
  have m: "get_memory_usage (memory_probe test_env 1) = PFloat2 5000"
    by (simp add: test_env_def get_memory_usage_def round_half_even_def)
  have on: "enable_execution_time_logging mock_config" "enable_memory_logging mock_config"
    "enable_request_metadata mock_config"
    by (simp_all add: mock_config_def)
  have off: "\<not> enable_execution_time_logging flags_off_config"
    "\<not> enable_memory_logging flags_off_config" "\<not> enable_request_metadata flags_off_config"
    by (simp_all add: flags_off_config_def)
  show ?thesis
    using flag_governed_fields[OF r1] flag_governed_fields[OF r2] r1 r2 g l m on off
    by simp
qed

text \<open>
  C8, as stated, fails in its first part: with \<open>enable_memory_logging\<close> off, a record that
  carries its own \<open>memory_usage_mb\<close> (line 118 of \<open>configure_logging\<close> attaches one through
  \<open>extra=\<close>) is emitted with that field.
\<close>

theorem memory_usage_mb_from_metadata:
  "\<not> enable_memory_logging flags_off_config
   \<and> returned (format plain_formatter flags_off_config test_env
        (test_record INFO None [(''memory_usage_mb'', PInt 5)]))
   \<and> field (format plain_formatter flags_off_config test_env
        (test_record INFO None [(''memory_usage_mb'', PInt 5)])) ''memory_usage_mb''
      = Some (PInt 5)"
proof -
  let ?r = "test_record INFO None [(''memory_usage_mb'', PInt 5)]"
  have r: "returned (format plain_formatter flags_off_config test_env ?r)"
    by (rule format_returns) (simp add: test_record_def all_serializable_def, rule format_ok)
  have l: "dict_lookup (record_dict ?r) ''memory_usage_mb'' = Some (PInt 5)"
    by (simp add: record_eval)
  have off: "\<not> enable_memory_logging flags_off_config" by (simp add: flags_off_config_def)
  have f: "field (format plain_formatter flags_off_config test_env ?r) ''memory_usage_mb''
           = Some (PInt 5)"
    by (simp add: field_format_memory[OF r] off l)
  show ?thesis
    using r off f by blast
qed

text \<open>
  C8, amended. With \<open>enable_memory_logging\<close> on, the emitted record's \<open>memory_usage_mb\<close> is the
  value of the memory probe; with the flag off the formatter adds none, and the field is in
  the record only if the event's own metadata carries \<open>memory_usage_mb\<close>, which passes
  through unchanged. The probe never raises: when the query succeeds it returns the resident
  memory in megabytes rounded to two decimals (a number of hundredths within half a
  hundredth of \<open>rss / 2^20\<close>), and on \<open>NoSuchProcess\<close>, \<open>AccessDenied\<close> or \<open>ZombieProcess\<close> it
  returns \<open>"UNKNOWN"\<close>.
\<close>

theorem memory_usage_mb_and_probe:
  "(returned (format self cfg e r) \<longrightarrow>
      (enable_memory_logging cfg \<longrightarrow>
         field (format self cfg e r) ''memory_usage_mb''
           = Some (get_memory_usage (memory_probe e 1)))
      \<and> (\<not> enable_memory_logging cfg \<longrightarrow>
         field (format self cfg e r) ''memory_usage_mb''
           = dict_lookup (record_dict r) ''memory_usage_mb''))
   \<and> (\<exists>k. get_memory_usage (Inr rss) = PFloat2 k
          \<and> 2 * \<bar>k * 1048576 - 100 * int rss\<bar> \<le> 1048576)
   \<and> get_memory_usage (Inl err) = PStr ''UNKNOWN''"
proof -
  have "2 * \<bar>round_half_even (100 * rss) (1024 * 1024) * int (1024 * 1024) - int (100 * rss)\<bar>
          \<le> int (1024 * 1024)"
    by (rule round_half_even_near) simp
  then have near: "2 * \<bar>round_half_even (100 * rss) (1024 * 1024) * 1048576 - 100 * int rss\<bar> \<le> 1048576"
    by simp
  have unknown: "get_memory_usage (Inl err) = PStr ''UNKNOWN''"
    by (cases err) (simp_all add: get_memory_usage_def)
  show ?thesis
    using near unknown by (auto simp: field_format_memory get_memory_usage_def)
qed

text \<open>
  The record of the tests under both settings of the flag, a probe of 128 KiB (a tie, 0.125
  MB, rounded to 0.12) and a denied probe.
\<close>

theorem memory_usage_mb_and_probe_witness:
  "returned (format plain_formatter mock_config test_env (test_record INFO None []))
   \<and> enable_memory_logging mock_config
   \<and> field (format plain_formatter mock_config test_env (test_record INFO None []))
        ''memory_usage_mb'' = Some (PFloat2 5000)
   \<and> returned (format plain_formatter flags_off_config test_env (test_record INFO None []))
   \<and> \<not> enable_memory_logging flags_off_config
   \<and> field (format plain_formatter flags_off_config test_env (test_record INFO None []))
        ''memory_usage_mb'' = None
   \<and> get_memory_usage (Inr 131072) = PFloat2 12
   \<and> get_memory_usage (Inl AccessDenied) = PStr ''UNKNOWN''"
proof -
  let ?r = "test_record INFO None []"
  have r1: "returned (format plain_formatter mock_config test_env ?r)"
    by (rule format_returns) (simp add: test_record_def all_serializable_def, rule format_ok)
  have r2: "returned (format plain_formatter flags_off_config test_env ?r)"
    by (rule format_returns) (simp add: test_record_def all_serializable_def, rule format_ok)
  have l: "dict_lookup (record_dict ?r) ''memory_usage_mb'' = None"
    by (simp add: record_eval)
  have m: "get_memory_usage (memory_probe test_env 1) = PFloat2 5000"
    by (simp add: test_env_def get_memory_usage_def round_half_even_def)
  have t: "get_memory_usage (Inr 131072) = PFloat2 12"
    by (simp add: get_memory_usage_def round_half_even_def)
  have on: "enable_memory_logging mock_config" by (simp add: mock_config_def)
  have off: "\<not> enable_memory_logging flags_off_config" by (simp add: flags_off_config_def)
  show ?thesis
    using memory_usage_mb_and_probe[of plain_formatter mock_config test_env ?r 131072 AccessDenied]
      memory_usage_mb_and_probe[of plain_formatter flags_off_config test_env ?r 131072 AccessDenied]
      r1 r2 l m t on off
    by simp
qed

section \<open>The claims about the dispatch worker\<close>

text \<open>What \<open>handleError\<close> does to the state, and what the handlers do with a write that raises.\<close>

lemma handleError_returns:
  "handleError_raises ch = None \<Longrightarrow>
   handleError ch err r s = (s\<lparr>stderr_reports := stderr_reports s @ error_report ch err r\<rparr>, None)"
  by (cases "sys_stderr ch")
     (auto simp: handleError_def handleError_raises_def error_report_def split: if_splits)

lemma handleError_escapes:
  "handleError_raises ch = Some e \<Longrightarrow> handleError ch err r s = (s, Some e)"
  by (cases "sys_stderr ch")
     (auto simp: handleError_def handleError_raises_def split: if_splits)

lemma Handler_handle_ok:
  "write_raises h r = None \<Longrightarrow>
   Handler_handle ch h r s = (s\<lparr>delivered := delivered s @ [(handler_name h, r)]\<rparr>, None)"
  by (cases "handler_class h")
     (simp_all add: Handler_handle_def StreamHandler_emit_def RotatingFileHandler_emit_def)

lemma Handler_handle_caught:
  assumes "write_raises h r = Some (Exception cls m)"
    and "handler_class h = RotatingFileHandlerClass \<or> cls \<noteq> ''RecursionError''"
    and "handleError_raises ch = None"
  shows "Handler_handle ch h r s
         = (s\<lparr>stderr_reports := stderr_reports s @ error_report ch (Exception cls m) r\<rparr>, None)"
  using assms(1,2)
  by (cases "handler_class h")
     (auto simp: Handler_handle_def StreamHandler_emit_def RotatingFileHandler_emit_def
        handleError_returns[OF assms(3)])

lemma Handler_handle_report_fails:
  assumes "write_raises h r = Some (Exception cls m)"
    and "handler_class h = RotatingFileHandlerClass \<or> cls \<noteq> ''RecursionError''"
    and "handleError_raises ch = Some (Exception cls' m')"
  shows "Handler_handle ch h r s = (s, Some (Exception cls' m'))"
  using assms(1,2)
  by (cases "handler_class h")
     (auto simp: Handler_handle_def StreamHandler_emit_def RotatingFileHandler_emit_def
        handleError_escapes[OF assms(3)])

lemma Handler_handle_escapes:
  assumes "write_raises h r = Some (Exception cls m)"
    and "handler_class h = StreamHandlerClass" and "cls = ''RecursionError''"
  shows "Handler_handle ch h r s = (s, Some (Exception cls m))"
  using assms by (simp add: Handler_handle_def StreamHandler_emit_def)

text \<open>The loop of \<open>QueueListener.handle\<close> over sinks whose writes succeed.\<close>

lemma QueueListener_handle_working_prefix:
  assumes "\<forall>p \<in> set pre. write_raises p r = None"
  shows "QueueListener_handle ch True (pre @ rest) r s
         = QueueListener_handle ch True rest r (s\<lparr>delivered := delivered s @ deliveries pre r\<rparr>)"
  using assms
proof (induction pre arbitrary: s)
  case Nil
  then show ?case by (simp add: deliveries_def)
next
  case (Cons p pre)
  then show ?case by (simp add: Handler_handle_ok deliveries_def)
qed

lemma QueueListener_handle_working:
  assumes "\<forall>p \<in> set hs. write_raises p r = None"
  shows "QueueListener_handle ch True hs r s
         = (s\<lparr>delivered := delivered s @ deliveries hs r\<rparr>, None)"
  using QueueListener_handle_working_prefix[OF assms, of ch "[]" s] by simp

lemma QueueListener_handle_caught:
  assumes "\<forall>p \<in> set pre. write_raises p r = None" and "\<forall>p \<in> set post. write_raises p r = None"
    and "write_raises h r = Some (Exception cls m)" and "handler_level h \<le> levelno r"
    and "handler_class h = RotatingFileHandlerClass \<or> cls \<noteq> ''RecursionError''"
    and "handleError_raises ch = None"
  shows "QueueListener_handle ch True (pre @ h # post) r s
         = (s\<lparr>delivered := delivered s @ deliveries pre r @ deliveries post r,
               stderr_reports := stderr_reports s @ error_report ch (Exception cls m) r\<rparr>, None)"
  by (simp add: QueueListener_handle_working_prefix[OF assms(1)] assms(4)
      Handler_handle_caught[OF assms(3,5,6)] QueueListener_handle_working[OF assms(2)])

lemma QueueListener_handle_report_fails:
  assumes "\<forall>p \<in> set pre. write_raises p r = None"
    and "write_raises h r = Some (Exception cls m)" and "handler_level h \<le> levelno r"
    and "handler_class h = RotatingFileHandlerClass \<or> cls \<noteq> ''RecursionError''"
    and "handleError_raises ch = Some (Exception cls' m')"
  shows "QueueListener_handle ch True (pre @ h # post) r s
         = (s\<lparr>delivered := delivered s @ deliveries pre r\<rparr>, Some (Exception cls' m'))"
  by (simp add: QueueListener_handle_working_prefix[OF assms(1)] assms(3)
      Handler_handle_report_fails[OF assms(2,4,5)])

lemma QueueListener_handle_escapes:
  assumes "\<forall>p \<in> set pre. write_raises p r = None"
    and "write_raises h r = Some (Exception cls m)" and "handler_level h \<le> levelno r"
    and "handler_class h = StreamHandlerClass" and "cls = ''RecursionError''"
  shows "QueueListener_handle ch True (pre @ h # post) r s
         = (s\<lparr>delivered := delivered s @ deliveries pre r\<rparr>, Some (Exception cls m))"
  by (simp add: QueueListener_handle_working_prefix[OF assms(1)] assms(3)
      Handler_handle_escapes[OF assms(2,4,5)])

lemma print_line_returns:
  "print_raises ch = None \<Longrightarrow>
   print_line ch (logging_error_line m) s = (s\<lparr>printed := printed s @ printed_report ch m\<rparr>, None)"
  by (cases "sys_stdout ch") (simp_all add: print_line_def print_raises_def printed_report_def)

lemma levelno_test_record_ERROR: "levelno (test_record ERROR ei ex) = 40"
  by (simp add: levelno_def test_record_def)

text \<open>
  C3, as stated, fails in each of its three parts. With \<open>logging.raiseExceptions\<close> switched
  off, the failure of the file sink's write is swallowed by the sink's own \<open>emit\<close>: the console
  sink receives the record, but nothing is reported, neither on standard error nor by the
  \<open>print\<close> of line 27, which is not reached. With standard error closed, the report of that
  failure raises in turn, the exception leaves the file sink and ends the loop over the sinks:
  line 27 prints it, and the console sink never receives the record. With standard output
  closed as well, that \<open>print\<close> raises inside the \<open>except\<close> clause and the worker ends with the
  next record still queued.
\<close>

theorem sink_failure_unreported_or_undelivered_or_fatal:
  "write_raises broken_file_sink (test_record ERROR None []) = Some disk_full
   \<and> write_raises console_sink (test_record ERROR None []) = None
   \<and> SafeQueueListener_handle silent_channels True [broken_file_sink, console_sink]
        (test_record ERROR None []) idle
     = (\<lparr>delivered = [(''console'', test_record ERROR None [])], stderr_reports = [],
          printed = []\<rparr>, None)
   \<and> SafeQueueListener_handle closed_stderr_channels True [broken_file_sink, console_sink]
        (test_record ERROR None []) idle
     = (\<lparr>delivered = [], stderr_reports = [],
          printed = [logging_error_line ''I/O operation on closed file.'']\<rparr>, None)
   \<and> monitor closed_channels True [broken_file_sink, console_sink]
        [Record (test_record ERROR None []), Record (test_record ERROR None []), Sentinel] idle
     = (idle, Some closed_file)"
proof -
  let ?r = "test_record ERROR None []"
  note l = levelno_test_record_ERROR[of None "[]"]
  have w: "write_raises broken_file_sink ?r = Some disk_full"
    by (simp add: broken_file_sink_def)
  have w': "write_raises broken_file_sink ?r
            = Some (Exception ''OSError'' ''[Errno 28] No space left on device'')"
    by (simp add: broken_file_sink_def disk_full_def)
  have v: "write_raises console_sink ?r = None"
    by (simp add: console_sink_def)
  have p0: "\<forall>p \<in> set []. write_raises p ?r = None" by simp
  have p1: "\<forall>p \<in> set [console_sink]. write_raises p ?r = None" by (simp add: console_sink_def)
  have t: "handler_level broken_file_sink \<le> levelno ?r" by (simp add: broken_file_sink_def l)
  have c: "handler_class broken_file_sink = RotatingFileHandlerClass
           \<or> ''OSError'' \<noteq> ''RecursionError''"
    by simp
  have d0: "deliveries [] ?r = []" by (simp add: deliveries_def)
  have d1: "deliveries [console_sink] ?r = [(''console'', ?r)]"
    by (simp add: deliveries_def console_sink_def l)
  have h1: "handleError_raises silent_channels = None"
    by (simp add: handleError_raises_def silent_channels_def)
  have h2: "handleError_raises closed_stderr_channels
            = Some (Exception ''ValueError'' ''I/O operation on closed file.'')"
    by (simp add: handleError_raises_def closed_stderr_channels_def closed_file_def
        OSError_classes_def)
  have h3: "handleError_raises closed_channels
            = Some (Exception ''ValueError'' ''I/O operation on closed file.'')"
    by (simp add: handleError_raises_def closed_channels_def closed_file_def OSError_classes_def)
  have a: "QueueListener_handle silent_channels True ([] @ broken_file_sink # [console_sink]) ?r idle
           = (idle\<lparr>delivered := delivered idle @ deliveries [] ?r @ deliveries [console_sink] ?r,
                 stderr_reports := stderr_reports idle
                   @ error_report silent_channels
                       (Exception ''OSError'' ''[Errno 28] No space left on device'') ?r\<rparr>, None)"
    by (rule QueueListener_handle_caught[OF p0 p1 w' t c h1])
  have b: "QueueListener_handle closed_stderr_channels True
             ([] @ broken_file_sink # [console_sink]) ?r idle
           = (idle\<lparr>delivered := delivered idle @ deliveries [] ?r\<rparr>,
              Some (Exception ''ValueError'' ''I/O operation on closed file.''))"
    by (rule QueueListener_handle_report_fails[OF p0 w' t c h2])
  have b': "QueueListener_handle closed_channels True
             ([] @ broken_file_sink # [console_sink]) ?r idle
           = (idle\<lparr>delivered := delivered idle @ deliveries [] ?r\<rparr>,
              Some (Exception ''ValueError'' ''I/O operation on closed file.''))"
    by (rule QueueListener_handle_report_fails[OF p0 w' t c h3])
  have 1: "SafeQueueListener_handle silent_channels True [broken_file_sink, console_sink] ?r idle
           = (\<lparr>delivered = [(''console'', ?r)], stderr_reports = [], printed = []\<rparr>, None)"
    using a d0 d1
    by (simp add: SafeQueueListener_handle_def idle_def error_report_def silent_channels_def)
  have 2: "SafeQueueListener_handle closed_stderr_channels True [broken_file_sink, console_sink]
             ?r idle
           = (\<lparr>delivered = [], stderr_reports = [],
                printed = [logging_error_line ''I/O operation on closed file.'']\<rparr>, None)"
    using b d0
    by (simp add: SafeQueueListener_handle_def print_line_def idle_def closed_stderr_channels_def)
  have 3: "monitor closed_channels True [broken_file_sink, console_sink]
             [Record ?r, Record ?r, Sentinel] idle
           = (idle, Some closed_file)"
    using b' d0
    by (simp add: SafeQueueListener_handle_def print_line_def idle_def closed_channels_def
        closed_file_def)
  show ?thesis using w v 1 2 3 by blast
qed

text \<open>
  C3, amended. Suppose that during the dispatch of a dequeued record exactly one sink's write
  raises an \<open>Exception\<close>, and that the record meets that sink's threshold.

  \<^item> Unless the exception is a \<open>RecursionError\<close> in a \<open>StreamHandler\<close>, the sink's own \<open>emit\<close>
    catches it and hands it to \<open>handleError\<close>. If no exception leaves \<open>handleError\<close>, the
    record is delivered to every other sink whose threshold it meets, the exception is
    reported on standard error when \<open>logging.raiseExceptions\<close> is on and standard error is
    usable and is reported nowhere otherwise, and the worker goes on with the next queued
    item.
  \<^item> If an \<open>Exception\<close> leaves \<open>handleError\<close> (standard error fails with something that is not
    an \<open>OSError\<close>), or if the exception is a \<open>RecursionError\<close> in a \<open>StreamHandler\<close>, then the
    exception leaves the sink and \<open>SafeQueueListener.handle\<close> catches it: the sinks before
    the failing one have the record, the sinks after it are not served, the line of line 27
    is printed if there is a standard output, and, provided that \<open>print\<close> does not raise, the
    worker goes on with the next queued item.
\<close>

theorem sink_failure_is_contained:
  assumes "\<forall>p \<in> set pre. write_raises p r = None" and "\<forall>p \<in> set post. write_raises p r = None"
    and "write_raises h r = Some (Exception cls m)" and "handler_level h \<le> levelno r"
  shows "((handler_class h = RotatingFileHandlerClass \<or> cls \<noteq> ''RecursionError'')
            \<and> handleError_raises ch = None \<longrightarrow>
            SafeQueueListener_handle ch True (pre @ h # post) r s
              = (s\<lparr>delivered := delivered s @ deliveries pre r @ deliveries post r,
                    stderr_reports := stderr_reports s @ error_report ch (Exception cls m) r\<rparr>,
                 None)
          \<and> monitor ch True (pre @ h # post) (Record r # q) s
              = monitor ch True (pre @ h # post) q
                  (s\<lparr>delivered := delivered s @ deliveries pre r @ deliveries post r,
                     stderr_reports := stderr_reports s @ error_report ch (Exception cls m) r\<rparr>))
       \<and> ((handler_class h = RotatingFileHandlerClass \<or> cls \<noteq> ''RecursionError'')
            \<and> handleError_raises ch = Some (Exception cls' m') \<and> print_raises ch = None \<longrightarrow>
            SafeQueueListener_handle ch True (pre @ h # post) r s
              = (s\<lparr>delivered := delivered s @ deliveries pre r,
                    printed := printed s @ printed_report ch m'\<rparr>, None)
          \<and> monitor ch True (pre @ h # post) (Record r # q) s
              = monitor ch True (pre @ h # post) q
                  (s\<lparr>delivered := delivered s @ deliveries pre r,
                     printed := printed s @ printed_report ch m'\<rparr>))
       \<and> (handler_class h = StreamHandlerClass \<and> cls = ''RecursionError''
            \<and> print_raises ch = None \<longrightarrow>
            SafeQueueListener_handle ch True (pre @ h # post) r s
              = (s\<lparr>delivered := delivered s @ deliveries pre r,
                    printed := printed s @ printed_report ch m\<rparr>, None)
          \<and> monitor ch True (pre @ h # post) (Record r # q) s
              = monitor ch True (pre @ h # post) q
                  (s\<lparr>delivered := delivered s @ deliveries pre r,
                     printed := printed s @ printed_report ch m\<rparr>))"
proof (intro conjI impI)
  assume c: "(handler_class h = RotatingFileHandlerClass \<or> cls \<noteq> ''RecursionError'')
             \<and> handleError_raises ch = None"
  then have k: "handler_class h = RotatingFileHandlerClass \<or> cls \<noteq> ''RecursionError''"
    and e: "handleError_raises ch = None"
    by simp_all
  note q = QueueListener_handle_caught[OF assms k e, of s]
  show g: "SafeQueueListener_handle ch True (pre @ h # post) r s
          = (s\<lparr>delivered := delivered s @ deliveries pre r @ deliveries post r,
                stderr_reports := stderr_reports s @ error_report ch (Exception cls m) r\<rparr>, None)"
    by (simp add: SafeQueueListener_handle_def q)
  show "monitor ch True (pre @ h # post) (Record r # q) s
          = monitor ch True (pre @ h # post) q
              (s\<lparr>delivered := delivered s @ deliveries pre r @ deliveries post r,
                 stderr_reports := stderr_reports s @ error_report ch (Exception cls m) r\<rparr>)"
    by (simp add: g)
next
  assume c: "(handler_class h = RotatingFileHandlerClass \<or> cls \<noteq> ''RecursionError'')
             \<and> handleError_raises ch = Some (Exception cls' m') \<and> print_raises ch = None"
  then have k: "handler_class h = RotatingFileHandlerClass \<or> cls \<noteq> ''RecursionError''"
    and e: "handleError_raises ch = Some (Exception cls' m')" and o: "print_raises ch = None"
    by simp_all
  note q = QueueListener_handle_report_fails[OF assms(1,3,4) k e, of post s]
  show g: "SafeQueueListener_handle ch True (pre @ h # post) r s
          = (s\<lparr>delivered := delivered s @ deliveries pre r,
                printed := printed s @ printed_report ch m'\<rparr>, None)"
    by (simp add: SafeQueueListener_handle_def q print_line_returns[OF o])
  show "monitor ch True (pre @ h # post) (Record r # q) s
          = monitor ch True (pre @ h # post) q
              (s\<lparr>delivered := delivered s @ deliveries pre r,
                 printed := printed s @ printed_report ch m'\<rparr>)"
    by (simp add: g)
next
  assume c: "handler_class h = StreamHandlerClass \<and> cls = ''RecursionError''
             \<and> print_raises ch = None"
  then have k: "handler_class h = StreamHandlerClass" and e: "cls = ''RecursionError''"
    and o: "print_raises ch = None"
    by simp_all
  note q = QueueListener_handle_escapes[OF assms(1,3,4) k e, of ch post s]
  show g: "SafeQueueListener_handle ch True (pre @ h # post) r s
          = (s\<lparr>delivered := delivered s @ deliveries pre r,
                printed := printed s @ printed_report ch m\<rparr>, None)"
    by (simp add: SafeQueueListener_handle_def q print_line_returns[OF o])
  show "monitor ch True (pre @ h # post) (Record r # q) s
          = monitor ch True (pre @ h # post) q
              (s\<lparr>delivered := delivered s @ deliveries pre r,
                 printed := printed s @ printed_report ch m\<rparr>)"
    by (simp add: g)
qed

text \<open>
  Under the default settings the file sink's write fails: the console sink receives the
  record, standard error the report, and the worker reaches the sentinel. With standard error
  closed, the console sink misses the record and the line is printed. And a \<open>RecursionError\<close>
  leaves the console sink: the file sink has the record and the line is printed.
\<close>

theorem sink_failure_is_contained_witness:
  "write_raises broken_file_sink (test_record ERROR None []) = Some disk_full
   \<and> write_raises console_sink (test_record ERROR None []) = None
   \<and> handler_level broken_file_sink \<le> levelno (test_record ERROR None [])
   \<and> handleError_raises default_channels = None
   \<and> monitor default_channels True [broken_file_sink, console_sink]
        [Record (test_record ERROR None []), Sentinel] idle
       = (\<lparr>delivered = [(''console'', test_record ERROR None [])],
           stderr_reports = [(disk_full, test_record ERROR None [])], printed = []\<rparr>, None)
   \<and> handleError_raises closed_stderr_channels = Some closed_file
   \<and> print_raises closed_stderr_channels = None
   \<and> monitor closed_stderr_channels True [broken_file_sink, console_sink]
        [Record (test_record ERROR None []), Sentinel] idle
       = (\<lparr>delivered = [], stderr_reports = [],
           printed = [logging_error_line ''I/O operation on closed file.'']\<rparr>, None)
   \<and> write_raises file_sink (test_record ERROR None []) = None
   \<and> write_raises recursing_console_sink (test_record ERROR None []) = Some recursion_error
   \<and> handler_level recursing_console_sink \<le> levelno (test_record ERROR None [])
   \<and> print_raises default_channels = None
   \<and> monitor default_channels True [file_sink, recursing_console_sink]
        [Record (test_record ERROR None []), Sentinel] idle
       = (\<lparr>delivered = [(''file'', test_record ERROR None [])], stderr_reports = [],
           printed = [logging_error_line ''maximum recursion depth exceeded'']\<rparr>, None)"
proof -
  let ?r = "test_record ERROR None []"
  note l = levelno_test_record_ERROR[of None "[]"]
  have p0: "\<forall>p \<in> set []. write_raises p ?r = None" by simp
  have p1: "\<forall>p \<in> set [console_sink]. write_raises p ?r = None" by (simp add: console_sink_def)
  have p2: "\<forall>p \<in> set [file_sink]. write_raises p ?r = None" by (simp add: file_sink_def)
  have w1: "write_raises broken_file_sink ?r
            = Some (Exception ''OSError'' ''[Errno 28] No space left on device'')"
    by (simp add: broken_file_sink_def disk_full_def)
  have w2: "write_raises recursing_console_sink ?r
            = Some (Exception ''RecursionError'' ''maximum recursion depth exceeded'')"
    by (simp add: recursing_console_sink_def recursion_error_def)
  have t1: "handler_level broken_file_sink \<le> levelno ?r" by (simp add: broken_file_sink_def l)
  have t2: "handler_level recursing_console_sink \<le> levelno ?r"
    by (simp add: recursing_console_sink_def l)
  have c1: "handler_class broken_file_sink = RotatingFileHandlerClass"
    by (simp add: broken_file_sink_def)
  have c2: "handler_class recursing_console_sink = StreamHandlerClass"
    by (simp add: recursing_console_sink_def)
  have h1: "handleError_raises default_channels = None"
    by (simp add: handleError_raises_def default_channels_def)
  have h2: "handleError_raises closed_stderr_channels
            = Some (Exception ''ValueError'' ''I/O operation on closed file.'')"
    by (simp add: handleError_raises_def closed_stderr_channels_def closed_file_def
        OSError_classes_def)
  have o1: "print_raises default_channels = None"
    by (simp add: print_raises_def default_channels_def)
  have o2: "print_raises closed_stderr_channels = None"
    by (simp add: print_raises_def closed_stderr_channels_def)
  have d0: "deliveries [] ?r = []" by (simp add: deliveries_def)
  have d1: "deliveries [console_sink] ?r = [(''console'', ?r)]"
    by (simp add: deliveries_def console_sink_def l)
  have d2: "deliveries [file_sink] ?r = [(''file'', ?r)]"
    by (simp add: deliveries_def file_sink_def l)
  have e: "error_report default_channels
             (Exception ''OSError'' ''[Errno 28] No space left on device'') ?r
           = [(disk_full, ?r)]"
    by (simp add: error_report_def default_channels_def disk_full_def)
  have pr1: "printed_report default_channels ''maximum recursion depth exceeded''
            = [logging_error_line ''maximum recursion depth exceeded'']"
    by (simp add: printed_report_def default_channels_def)
  have pr2: "printed_report closed_stderr_channels ''I/O operation on closed file.''
            = [logging_error_line ''I/O operation on closed file.'']"
    by (simp add: printed_report_def closed_stderr_channels_def)
  have m1: "monitor default_channels True [broken_file_sink, console_sink]
              [Record ?r, Sentinel] idle
            = (\<lparr>delivered = [(''console'', ?r)], stderr_reports = [(disk_full, ?r)],
                 printed = []\<rparr>, None)"
    using sink_failure_is_contained[OF p0 p1 w1 t1, of default_channels idle "[Sentinel]"]
      c1 h1 d0 d1 e
    by (simp add: idle_def)
  have m2: "monitor closed_stderr_channels True [broken_file_sink, console_sink]
              [Record ?r, Sentinel] idle
            = (\<lparr>delivered = [], stderr_reports = [],
                 printed = [logging_error_line ''I/O operation on closed file.'']\<rparr>, None)"
    using sink_failure_is_contained[OF p0 p1 w1 t1, of closed_stderr_channels idle "[Sentinel]"
        "''ValueError''" "''I/O operation on closed file.''"]
      c1 h2 o2 d0 pr2
    by (simp add: idle_def)
  have m3: "monitor default_channels True [file_sink, recursing_console_sink]
              [Record ?r, Sentinel] idle
            = (\<lparr>delivered = [(''file'', ?r)], stderr_reports = [],
                 printed = [logging_error_line ''maximum recursion depth exceeded'']\<rparr>, None)"
    using sink_failure_is_contained[OF p2 p0 w2 t2, of default_channels idle "[Sentinel]"]
      c2 o1 d2 pr1
    by (simp add: idle_def)
  show ?thesis
    using m1 m2 m3 w1 w2 p1 p2 t1 t2 h1 h2 o1 o2
    by (simp add: disk_full_def recursion_error_def closed_file_def)
qed

section \<open>The claims about the bootstrap\<close>

text \<open>
  What leaves a run is what its first raising call raised, and the calls after that one are
  not made.
\<close>

lemma snd_run: "snd (run faults sts w) = first_raised faults sts"
  by (induction sts arbitrary: w) (auto simp: first_raised_def split: option.splits)

lemma first_raised_append:
  "first_raised faults xs = Some err \<Longrightarrow> first_raised faults (xs @ ys) = Some err"
  by (induction xs) (auto simp: first_raised_def split: option.splits if_splits)

lemma run_append_raised:
  "first_raised faults xs = Some err \<Longrightarrow> run faults (xs @ ys) w = run faults xs w"
  by (induction xs arbitrary: w) (auto simp: first_raised_def split: option.splits if_splits)

lemma run_keeps:
  assumes "first_raised faults sts \<noteq> None"
    and "\<forall>st \<in> set (butlast sts). \<forall>w. f (effect st w) = f w"
  shows "f (fst (run faults sts w)) = f w"
  using assms
proof (induction sts arbitrary: w)
  case Nil
  then show ?case by simp
next
  case (Cons st sts)
  show ?case
  proof (cases "raises faults st")
    case (Some err)
    then show ?thesis by simp
  next
    case None
    then have fr: "first_raised faults sts \<noteq> None"
      using Cons.prems(1) by (simp add: first_raised_def)
    then have ne: "sts \<noteq> []" by (auto simp: first_raised_def)
    have keep: "\<forall>st \<in> set (butlast sts). \<forall>w. f (effect st w) = f w"
      using Cons.prems(2) ne by simp
    have "f (effect st w) = f w"
      using Cons.prems(2) ne by simp
    then show ?thesis
      using None Cons.IH[OF fr keep, of "effect st w"] by simp
  qed
qed

lemma butlast_steps_1_to_4:
  "butlast (steps_1_to_4 cfg) =
     filesystem_steps cfg @
     [NewFormatter,
      NewQueue (log_queue_size cfg),
      NewQueueHandler,
      NewRotatingFileHandler (log_file_path cfg) (max_log_file_size cfg) (max_backup_files cfg)
        (file_log_level cfg),
      NewRotatingFileHandler (error_log_file_path cfg) (max_log_file_size cfg) (max_backup_files cfg)
        ERROR,
      NewStreamHandler (console_log_level cfg),
      NewListener]"
  by (simp add: steps_1_to_4_def construction_steps_def butlast_append)

lemma configure_logging_raised_early:
  assumes "first_raised faults (steps_1_to_4 cfg) = Some err"
  shows "fst (configure_logging faults cfg errs probe w) = fst (run faults (steps_1_to_4 cfg) w)"
proof -
  have "run faults (steps_1_to_5 cfg @ closing_steps cfg errs probe) w
        = run faults (steps_1_to_4 cfg) w"
    using run_append_raised[OF assms, of "installation_steps cfg @ closing_steps cfg errs probe" w]
    by (simp add: steps_1_to_5_def steps_1_to_4_def)
  then show ?thesis
    by (cases "run faults (steps_1_to_4 cfg) w")
       (auto simp: configure_logging_def split: option.splits error.splits)
qed

text \<open>
  C4, amended. If a call of bootstrap steps 1-5 raises an \<open>Exception\<close>, \<open>configure_logging\<close>
  raises one \<open>LoggingConfigurationError\<close> whose message is the fixed prefix followed by the
  text of that exception. If the failure is in steps 1-4 (directories, files and
  permissions, sinks, queue and worker), nothing of the pipeline is installed: the root
  logger's handlers, level and \<open>propagate\<close>, the handlers of the logger of logging errors and
  the number of workers started are what they were, so the handlers installed before remain
  in place.
\<close>

theorem bootstrap_failure_wrapped_and_early_failure_installs_nothing:
  "(first_raised faults (steps_1_to_5 cfg) = Some (Exception cls m) \<longrightarrow>
      snd (configure_logging faults cfg errs probe w) = Some (configuration_failure m))
   \<and> (first_raised faults (steps_1_to_4 cfg) \<noteq> None \<longrightarrow>
        root_handlers (fst (configure_logging faults cfg errs probe w)) = root_handlers w
      \<and> root_level (fst (configure_logging faults cfg errs probe w)) = root_level w
      \<and> root_propagate (fst (configure_logging faults cfg errs probe w)) = root_propagate w
      \<and> error_logger_handlers (fst (configure_logging faults cfg errs probe w))
          = error_logger_handlers w
      \<and> listeners_started (fst (configure_logging faults cfg errs probe w))
          = listeners_started w)"
proof (intro conjI impI)
  assume a: "first_raised faults (steps_1_to_5 cfg) = Some (Exception cls m)"
  let ?all = "steps_1_to_5 cfg @ closing_steps cfg errs probe"
  have "snd (run faults ?all w) = Some (Exception cls m)"
    using first_raised_append[OF a] by (simp add: snd_run)
  then show "snd (configure_logging faults cfg errs probe w) = Some (configuration_failure m)"
    by (cases "run faults ?all w") (simp add: configure_logging_def)
next
  assume b: "first_raised faults (steps_1_to_4 cfg) \<noteq> None"
  then obtain err where e: "first_raised faults (steps_1_to_4 cfg) = Some err" by auto
  note early = configure_logging_raised_early[OF e, of errs probe w]
  show "root_handlers (fst (configure_logging faults cfg errs probe w)) = root_handlers w"
    unfolding early
    by (rule run_keeps[OF b])
       (auto simp: butlast_steps_1_to_4 filesystem_steps_def)
  show "root_level (fst (configure_logging faults cfg errs probe w)) = root_level w"
    unfolding early
    by (rule run_keeps[OF b])
       (auto simp: butlast_steps_1_to_4 filesystem_steps_def)
  show "root_propagate (fst (configure_logging faults cfg errs probe w)) = root_propagate w"
    unfolding early
    by (rule run_keeps[OF b])
       (auto simp: butlast_steps_1_to_4 filesystem_steps_def)
  show "error_logger_handlers (fst (configure_logging faults cfg errs probe w))
          = error_logger_handlers w"
    unfolding early
    by (rule run_keeps[OF b])
       (auto simp: butlast_steps_1_to_4 filesystem_steps_def)
  show "listeners_started (fst (configure_logging faults cfg errs probe w)) = listeners_started w"
    unfolding early
    by (rule run_keeps[OF b])
       (auto simp: butlast_steps_1_to_4 filesystem_steps_def)
qed


text \<open>
  The definitions that evaluate a bootstrap on concrete inputs.
\<close>

lemmas bootstrap_eval = configure_logging_def steps_1_to_5_def steps_1_to_4_def
  filesystem_steps_def construction_steps_def installation_steps_def closing_steps_def
  raises_def create_if_missing_def set_mode_def dirname_def first_raised_def
  configuration_failure_def mock_config_def running_process_def

text \<open>
  C4, as stated, fails for a failure in step 5. When \<open>Logger.addHandler\<close> raises, as in the
  repository's test \<open>test_exception_handling_in_configure_logging\<close>, the error is wrapped as
  claimed, but lines 96-97 have already cleared the root logger: the handler installed before
  is gone, and the worker started at line 92 is left running.
\<close>

theorem failed_installation_clears_previous_handlers:
  "root_handlers running_process = [Installed ''previous'']
   \<and> first_raised addHandler_fails (steps_1_to_5 mock_config)
       = Some (Exception ''Exception'' ''Unexpected failure'')
   \<and> snd (configure_logging addHandler_fails mock_config [] (Inr 52428800) running_process)
       = Some (configuration_failure ''Unexpected failure'')
   \<and> root_handlers (fst (configure_logging addHandler_fails mock_config [] (Inr 52428800)
        running_process)) = []
   \<and> listeners_started (fst (configure_logging addHandler_fails mock_config [] (Inr 52428800)
        running_process)) = Suc (listeners_started running_process)"
  by (simp add: bootstrap_eval addHandler_fails_def)

text \<open>
  The failure of the repository's test \<open>test_missing_log_directory\<close>: \<open>os.makedirs\<close> is denied.
\<close>

theorem bootstrap_failure_wrapped_and_early_failure_installs_nothing_witness:
  "first_raised makedirs_denied (steps_1_to_5 mock_config)
     = Some (Exception ''PermissionError'' ''Directory creation failed'')
   \<and> first_raised makedirs_denied (steps_1_to_4 mock_config) \<noteq> None
   \<and> snd (configure_logging makedirs_denied mock_config [] (Inr 52428800) running_process)
       = Some (configuration_failure ''Directory creation failed'')
   \<and> root_handlers (fst (configure_logging makedirs_denied mock_config [] (Inr 52428800)
        running_process)) = [Installed ''previous'']
   \<and> listeners_started (fst (configure_logging makedirs_denied mock_config [] (Inr 52428800)
        running_process)) = 0"
proof -
  have a: "first_raised makedirs_denied (steps_1_to_5 mock_config)
           = Some (Exception ''PermissionError'' ''Directory creation failed'')"
    by (simp add: first_raised_def steps_1_to_5_def filesystem_steps_def raises_def
        makedirs_denied_def)
  have b: "first_raised makedirs_denied (steps_1_to_4 mock_config) \<noteq> None"
    by (simp add: first_raised_def steps_1_to_4_def filesystem_steps_def raises_def
        makedirs_denied_def)
  have w: "root_handlers running_process = [Installed ''previous'']"
    "listeners_started running_process = 0"
    by (simp_all add: running_process_def)
  show ?thesis
    using bootstrap_failure_wrapped_and_early_failure_installs_nothing[of makedirs_denied
        mock_config "''PermissionError''" "''Directory creation failed''" "[]" "Inr 52428800"
        running_process] a b w
    by simp
qed

end
